theory Spec2Isabelle
  imports Main "HOL-Library.Word"
begin

section \<open>The payment escrow contract (contracts/PaymentEscrow.sol)\<close>

text \<open>
  A shallow embedding of the Solidity contract \<^verbatim>\<open>PaymentEscrow\<close>. Solidity's
  \<^verbatim>\<open>uint256\<close> is a 256-bit word and \<^verbatim>\<open>address\<close> a 160-bit word. The contract is
  compiled with \<^verbatim>\<open>pragma solidity ^0.8.0\<close>, so \<^verbatim>\<open>+\<close>, \<^verbatim>\<open>-\<close> and \<^verbatim>\<open>++\<close> on
  \<^verbatim>\<open>uint256\<close> are checked: they abort the call instead of wrapping around.
  A call that aborts (a failed \<^verbatim>\<open>require\<close>, an arithmetic panic, a failure of the
  token ledger) reverts every effect of the call; the model returns \<open>Inl\<close> of the
  error and no new state.
\<close>

type_synonym uint256 = "256 word"
type_synonym address = "160 word"

subsection \<open>Errors\<close>

text \<open>
  One constructor for each \<^verbatim>\<open>require\<close> message of the contract, one for the
  arithmetic panic of checked \<^verbatim>\<open>uint256\<close> operations, and two for the failures of
  the token ledger.
  \<^item> \<open>OnlyOwner\<close>: "Only owner can call this function"
  \<^item> \<open>OnlyRentalMarketplace\<close>: "Only RentalMarketplace can call this function"
  \<^item> \<open>OnlyRentDisputeDAO\<close>: "Only RentDisputeDAO can call this function"
  \<^item> \<open>OnlyRentalMarketplaceOrRentDisputeDAO\<close>:
    "Only RentalMarketplace or RentDisputeDAO can call this function"
  \<^item> \<open>PayerNotEnoughBalance\<close>: "Payer does not have enough balance"
  \<^item> \<open>PaymentDoesNotExist\<close>: "Payment does not exist"
  \<^item> \<open>PaymentAlreadyMade\<close>: "Payment has already been made"
  \<^item> \<open>PaymentNotMadeYet\<close>: "Payment has not been made yet"
  \<^item> \<open>PaymentNotReleasedYet\<close>: "Payment has not been released yet"
  \<^item> \<open>PaymentNotRefundedYet\<close>: "Payment has not been refunded yet"
  \<^item> \<open>ProtectionFeeNotPositive\<close>: "Protection fee must be greater than 0"
  \<^item> \<open>CommissionFeeNotPositive\<close>: "Commission fee must be greater than 0"
  \<^item> \<open>InvalidRentalMarketplaceAddress\<close>: "Invalid Rentalmarketpalce address"
  \<^item> \<open>InvalidRentDisputeDAOAddress\<close>: "Invalid RentDisputeDAO address"
\<close>

datatype error =
    OnlyOwner
  | OnlyRentalMarketplace
  | OnlyRentDisputeDAO
  | OnlyRentalMarketplaceOrRentDisputeDAO
  | PayerNotEnoughBalance
  | PaymentDoesNotExist
  | PaymentAlreadyMade
  | PaymentNotMadeYet
  | PaymentNotReleasedYet
  | PaymentNotRefundedYet
  | ProtectionFeeNotPositive
  | CommissionFeeNotPositive
  | InvalidRentalMarketplaceAddress
  | InvalidRentDisputeDAOAddress
  | ArithmeticPanic
  | LedgerInsufficientBalance
  | LedgerInsufficientAllowance

text \<open>
  The error taxonomy of the specification, and the class of each error of the contract.
  The arithmetic panic and the ledger's refusal of a transfer that was not approved have
  no class in the taxonomy.
\<close>

datatype error_class =
  Unauthorized | NotFound | InvalidState | InsufficientFunds | InvalidParameter | Unclassified

fun classify :: "error \<Rightarrow> error_class" where
  "classify OnlyOwner = Unauthorized"
| "classify OnlyRentalMarketplace = Unauthorized"
| "classify OnlyRentDisputeDAO = Unauthorized"
| "classify OnlyRentalMarketplaceOrRentDisputeDAO = Unauthorized"
| "classify PayerNotEnoughBalance = InsufficientFunds"
| "classify PaymentDoesNotExist = NotFound"
| "classify PaymentAlreadyMade = InvalidState"
| "classify PaymentNotMadeYet = InvalidState"
| "classify PaymentNotReleasedYet = InvalidState"
| "classify PaymentNotRefundedYet = InvalidState"
| "classify ProtectionFeeNotPositive = InvalidParameter"
| "classify CommissionFeeNotPositive = InvalidParameter"
| "classify InvalidRentalMarketplaceAddress = InvalidParameter"
| "classify InvalidRentDisputeDAOAddress = InvalidParameter"
| "classify ArithmeticPanic = Unclassified"
| "classify LedgerInsufficientBalance = InsufficientFunds"
| "classify LedgerInsufficientAllowance = Unclassified"

definition bindE :: "error + 'a \<Rightarrow> ('a \<Rightarrow> error + 'b) \<Rightarrow> error + 'b" where
  "bindE m f = (case m of Inl e \<Rightarrow> Inl e | Inr x \<Rightarrow> f x)"

definition require :: "bool \<Rightarrow> error \<Rightarrow> (error + 'a) \<Rightarrow> error + 'a" where
  "require c e body = (if c then body else Inl e)"

text \<open>Checked \<^verbatim>\<open>uint256\<close> arithmetic of Solidity 0.8.\<close>

definition checked_add :: "uint256 \<Rightarrow> uint256 \<Rightarrow> error + uint256" where
  "checked_add a b = (if unat a + unat b < 2 ^ 256 then Inr (a + b) else Inl ArithmeticPanic)"

definition checked_sub :: "uint256 \<Rightarrow> uint256 \<Rightarrow> error + uint256" where
  "checked_sub a b = (if b \<le> a then Inr (a - b) else Inl ArithmeticPanic)"

subsection \<open>The token ledger\<close>

text \<open>
  Modelled from the spec: the contract \<^verbatim>\<open>LeaseToken\<close> (\<^verbatim>\<open>import "./LeaseToken.sol"\<close>)
  is not among the sources. The specification describes it as the ledger capability
  adapter with four operations: \<open>balanceOf(identity)\<close>,
  \<open>authorize(owner, spender, amount)\<close>, \<open>transfer(from, to, amount)\<close> and
  \<open>transferFrom(spender, from, to, amount)\<close>, where a transfer is rejected when the
  source balance is insufficient at execution time or the transfer is not authorised.
  The escrow calls them as \<^verbatim>\<open>checkLeaseToken\<close>, \<^verbatim>\<open>approveLeaseToken\<close>,
  \<^verbatim>\<open>transferLeaseToken\<close> and \<^verbatim>\<open>transferLeaseTokenFrom\<close>. Balances are
  \<^verbatim>\<open>uint256\<close>; the debit and the credit are checked operations, done in this order,
  so a transfer from an identity to itself leaves its balance as it was.
\<close>

record LeaseToken =
  balanceOf :: "address \<Rightarrow> uint256"
  allowance :: "address \<Rightarrow> address \<Rightarrow> uint256"

definition checkLeaseToken :: "LeaseToken \<Rightarrow> address \<Rightarrow> uint256" where
  "checkLeaseToken l a = balanceOf l a"

definition approveLeaseToken ::
  "LeaseToken \<Rightarrow> address \<Rightarrow> address \<Rightarrow> uint256 \<Rightarrow> error + LeaseToken" where
  "approveLeaseToken l holder spender v =
     Inr (l\<lparr>allowance := (allowance l)(holder := (allowance l holder)(spender := v))\<rparr>)"

definition moveLeaseToken ::
  "LeaseToken \<Rightarrow> address \<Rightarrow> address \<Rightarrow> uint256 \<Rightarrow> error + LeaseToken" where
  "moveLeaseToken l src dst v =
     (if balanceOf l src < v then Inl LedgerInsufficientBalance
      else
        let debited = (balanceOf l)(src := balanceOf l src - v)
        in bindE (checked_add (debited dst) v)
             (\<lambda>credited. Inr (l\<lparr>balanceOf := debited(dst := credited)\<rparr>)))"

definition transferLeaseToken ::
  "LeaseToken \<Rightarrow> address \<Rightarrow> address \<Rightarrow> uint256 \<Rightarrow> error + LeaseToken" where
  "transferLeaseToken l src dst v = moveLeaseToken l src dst v"

definition transferLeaseTokenFrom ::
  "LeaseToken \<Rightarrow> address \<Rightarrow> address \<Rightarrow> address \<Rightarrow> uint256 \<Rightarrow> error + LeaseToken" where
  "transferLeaseTokenFrom l spender src dst v =
     (if allowance l src spender < v then Inl LedgerInsufficientAllowance
      else
        bindE (moveLeaseToken l src dst v)
          (\<lambda>l'. Inr (l'\<lparr>allowance :=
                   (allowance l')(src := (allowance l' src)(spender := allowance l' src spender - v))\<rparr>)))"

text \<open>The three state-changing calls the escrow makes into the ledger.\<close>

datatype ledger_call =
    ApproveLeaseToken address address uint256
  | TransferLeaseToken address address uint256
  | TransferLeaseTokenFrom address address address uint256

fun ledger_exec :: "ledger_call \<Rightarrow> LeaseToken \<Rightarrow> error + LeaseToken" where
  "ledger_exec (ApproveLeaseToken holder spender v) l = approveLeaseToken l holder spender v"
| "ledger_exec (TransferLeaseToken src dst v) l = transferLeaseToken l src dst v"
| "ledger_exec (TransferLeaseTokenFrom spender src dst v) l =
     transferLeaseTokenFrom l spender src dst v"

subsection \<open>Structure and state variables\<close>

datatype PaymentStatus = PENDING | PAID | RELEASED | REFUNDED

record Payment =
  payer :: address
  payee :: address
  amount :: uint256
  status :: PaymentStatus

text \<open>The value of an unwritten slot of \<^verbatim>\<open>mapping(uint256 => Payment)\<close>: every field zero.\<close>

definition zero_Payment :: Payment where
  "zero_Payment = \<lparr>payer = 0, payee = 0, amount = 0, status = PENDING\<rparr>"

datatype event =
    paymentCreated address address uint256
  | paymentPaid address address uint256
  | paymentReleased address address uint256
  | paymentRefunded address address uint256
  | protectionFeeSet uint256
  | commissionFeeSet uint256
  | tokenWithdrawn address uint256
  | rentalMarketplaceAddressSet address
  | rentDisputeDAOAddressSet address

datatype storage_write =
    Write_payment uint256 Payment
  | Write_numOfPayments uint256
  | Write_status uint256 PaymentStatus
  | Write_protectionFee uint256
  | Write_commissionFee uint256
  | Write_rentalMarketplaceAddress address
  | Write_rentDisputeDAOAddress address

text \<open>
  What a call does, in the order in which the statements of the contract do it: a
  state-changing call into the ledger, a write to the contract's storage, an emitted
  event. Balance queries (\<^verbatim>\<open>checkLeaseToken\<close>) are read-only and are not recorded.
\<close>

datatype effect = Call ledger_call | Store storage_write | Emit event

text \<open>
  The state variables of the contract, in the order of their declaration. The field
  \<open>leaseTokenContract\<close> holds the state of the ledger the contract points to,
  \<open>this\<close> is \<^verbatim>\<open>address(this)\<close>, and \<open>trace\<close> is the sequence of effects of the calls
  that completed.
\<close>

record PaymentEscrow =
  numOfPayments :: uint256
  protectionFee :: uint256
  commissionFee :: uint256
  leaseTokenContract :: LeaseToken
  payments :: "uint256 \<Rightarrow> Payment"
  owner :: address
  rentalMarketplaceAddress :: address
  rentDisputeDAOAddress :: address
  this :: address
  trace :: "effect list"

definition constructor ::
  "address \<Rightarrow> LeaseToken \<Rightarrow> address \<Rightarrow> uint256 \<Rightarrow> uint256 \<Rightarrow> PaymentEscrow" where
  "constructor self ledger sender p c =
     \<lparr>numOfPayments = 0,
      protectionFee = p,
      commissionFee = c,
      leaseTokenContract = ledger,
      payments = (\<lambda>_. zero_Payment),
      owner = sender,
      rentalMarketplaceAddress = 0,
      rentDisputeDAOAddress = 0,
      this = self,
      trace = []\<rparr>"

subsection \<open>Effects\<close>

definition external :: "ledger_call \<Rightarrow> PaymentEscrow \<Rightarrow> error + PaymentEscrow" where
  "external c s =
     bindE (ledger_exec c (leaseTokenContract s))
       (\<lambda>l. Inr (s\<lparr>leaseTokenContract := l, trace := trace s @ [Call c]\<rparr>))"

fun apply_write :: "storage_write \<Rightarrow> PaymentEscrow \<Rightarrow> PaymentEscrow" where
  "apply_write (Write_payment i p) s = s\<lparr>payments := (payments s)(i := p)\<rparr>"
| "apply_write (Write_numOfPayments n) s = s\<lparr>numOfPayments := n\<rparr>"
| "apply_write (Write_status i st) s = s\<lparr>payments := (payments s)(i := (payments s i)\<lparr>status := st\<rparr>)\<rparr>"
| "apply_write (Write_protectionFee v) s = s\<lparr>protectionFee := v\<rparr>"
| "apply_write (Write_commissionFee v) s = s\<lparr>commissionFee := v\<rparr>"
| "apply_write (Write_rentalMarketplaceAddress a) s = s\<lparr>rentalMarketplaceAddress := a\<rparr>"
| "apply_write (Write_rentDisputeDAOAddress a) s = s\<lparr>rentDisputeDAOAddress := a\<rparr>"

definition store :: "storage_write \<Rightarrow> PaymentEscrow \<Rightarrow> PaymentEscrow" where
  "store w s = (apply_write w s)\<lparr>trace := trace s @ [Store w]\<rparr>"

definition emit :: "event \<Rightarrow> PaymentEscrow \<Rightarrow> PaymentEscrow" where
  "emit ev s = s\<lparr>trace := trace s @ [Emit ev]\<rparr>"

subsection \<open>Modifiers\<close>

text \<open>
  A modifier takes the caller (\<^verbatim>\<open>msg.sender\<close>), its arguments, the state and the
  rest of the call (the \<^verbatim>\<open>_;\<close> of the source).
\<close>

definition onlyOwner :: "address \<Rightarrow> PaymentEscrow \<Rightarrow> (error + 'a) \<Rightarrow> error + 'a" where
  "onlyOwner sender s body = require (sender = owner s) OnlyOwner body"

definition onlyRentalMarketplace ::
  "address \<Rightarrow> PaymentEscrow \<Rightarrow> (error + 'a) \<Rightarrow> error + 'a" where
  "onlyRentalMarketplace sender s body =
     require (sender = rentalMarketplaceAddress s) OnlyRentalMarketplace body"

definition onlyRentDisputeDAO ::
  "address \<Rightarrow> PaymentEscrow \<Rightarrow> (error + 'a) \<Rightarrow> error + 'a" where
  "onlyRentDisputeDAO sender s body =
     require (sender = rentDisputeDAOAddress s) OnlyRentDisputeDAO body"

definition onlyRentalMarketplaceOrRentDisputeDAO ::
  "address \<Rightarrow> PaymentEscrow \<Rightarrow> (error + 'a) \<Rightarrow> error + 'a" where
  "onlyRentalMarketplaceOrRentDisputeDAO sender s body =
     require (sender = rentalMarketplaceAddress s \<or> sender = rentDisputeDAOAddress s)
       OnlyRentalMarketplaceOrRentDisputeDAO body"

definition checkSufficientBalance ::
  "address \<Rightarrow> uint256 \<Rightarrow> PaymentEscrow \<Rightarrow> (error + 'a) \<Rightarrow> error + 'a" where
  "checkSufficientBalance p v s body =
     require (checkLeaseToken (leaseTokenContract s) p \<ge> v) PayerNotEnoughBalance body"

definition PaymentExists :: "uint256 \<Rightarrow> PaymentEscrow \<Rightarrow> (error + 'a) \<Rightarrow> error + 'a" where
  "PaymentExists paymentId s body =
     require (paymentId < numOfPayments s) PaymentDoesNotExist body"

definition PaymentPending :: "uint256 \<Rightarrow> PaymentEscrow \<Rightarrow> (error + 'a) \<Rightarrow> error + 'a" where
  "PaymentPending paymentId s body =
     require (status (payments s paymentId) = PENDING) PaymentAlreadyMade body"

definition PaymentPaid :: "uint256 \<Rightarrow> PaymentEscrow \<Rightarrow> (error + 'a) \<Rightarrow> error + 'a" where
  "PaymentPaid paymentId s body =
     require (status (payments s paymentId) = PAID) PaymentNotMadeYet body"

definition PaymentReleased :: "uint256 \<Rightarrow> PaymentEscrow \<Rightarrow> (error + 'a) \<Rightarrow> error + 'a" where
  "PaymentReleased paymentId s body =
     require (status (payments s paymentId) = RELEASED) PaymentNotReleasedYet body"

definition PaymentRefunded :: "uint256 \<Rightarrow> PaymentEscrow \<Rightarrow> (error + 'a) \<Rightarrow> error + 'a" where
  "PaymentRefunded paymentId s body =
     require (status (payments s paymentId) = REFUNDED) PaymentNotRefundedYet body"

definition invalidProtectionFee :: "uint256 \<Rightarrow> (error + 'a) \<Rightarrow> error + 'a" where
  "invalidProtectionFee v body = require (v > 0) ProtectionFeeNotPositive body"

definition invalidCommissionFee :: "uint256 \<Rightarrow> (error + 'a) \<Rightarrow> error + 'a" where
  "invalidCommissionFee v body = require (v > 0) CommissionFeeNotPositive body"

definition invalidRentalMarketplaceAddress :: "address \<Rightarrow> (error + 'a) \<Rightarrow> error + 'a" where
  "invalidRentalMarketplaceAddress a body =
     require (a \<noteq> 0) InvalidRentalMarketplaceAddress body"

definition invalidRentDisputeDAOAddress :: "address \<Rightarrow> (error + 'a) \<Rightarrow> error + 'a" where
  "invalidRentDisputeDAOAddress a body = require (a \<noteq> 0) InvalidRentDisputeDAOAddress body"

subsection \<open>Functions\<close>

definition createPayment ::
  "address \<Rightarrow> address \<Rightarrow> address \<Rightarrow> uint256 \<Rightarrow> PaymentEscrow \<Rightarrow> error + (uint256 \<times> PaymentEscrow)"
  where
  "createPayment sender p q v s =
     onlyRentalMarketplaceOrRentDisputeDAO sender s
      (checkSufficientBalance p v s
        (let s1 = store (Write_payment (numOfPayments s)
                     \<lparr>payer = p, payee = q, amount = v, status = PENDING\<rparr>) s
         in bindE (checked_add (numOfPayments s1) 1) (\<lambda>n.
            let s2 = store (Write_numOfPayments n) s1;
                s3 = emit (paymentCreated p q v) s2
            in bindE (checked_sub (numOfPayments s3) 1) (\<lambda>r. Inr (r, s3)))))"

definition pay :: "address \<Rightarrow> uint256 \<Rightarrow> PaymentEscrow \<Rightarrow> error + PaymentEscrow" where
  "pay sender paymentId s =
     onlyRentalMarketplace sender s
      (PaymentExists paymentId s
        (PaymentPending paymentId s
          (bindE (external (ApproveLeaseToken (payer (payments s paymentId)) (this s)
                             (amount (payments s paymentId))) s) (\<lambda>s1.
           bindE (external (TransferLeaseTokenFrom (this s1) (payer (payments s1 paymentId))
                             (this s1) (amount (payments s1 paymentId))) s1) (\<lambda>s2.
           let s3 = store (Write_status paymentId PAID) s2
           in Inr (emit (paymentPaid (payer (payments s3 paymentId))
                          (payee (payments s3 paymentId))
                          (amount (payments s3 paymentId))) s3))))))"

definition release :: "address \<Rightarrow> uint256 \<Rightarrow> PaymentEscrow \<Rightarrow> error + PaymentEscrow" where
  "release sender paymentId s =
     onlyRentalMarketplace sender s
      (PaymentExists paymentId s
        (PaymentPaid paymentId s
          (bindE (checked_sub (amount (payments s paymentId)) (commissionFee s)) (\<lambda>net.
           bindE (external (TransferLeaseToken (this s) (payee (payments s paymentId)) net) s)
             (\<lambda>s1.
           let s2 = store (Write_status paymentId RELEASED) s1
           in Inr (emit (paymentReleased (payer (payments s2 paymentId))
                          (payee (payments s2 paymentId))
                          (amount (payments s2 paymentId))) s2))))))"

definition refund :: "address \<Rightarrow> uint256 \<Rightarrow> PaymentEscrow \<Rightarrow> error + PaymentEscrow" where
  "refund sender paymentId s =
     onlyRentalMarketplaceOrRentDisputeDAO sender s
      (PaymentExists paymentId s
        (PaymentPaid paymentId s
          (bindE (external (TransferLeaseToken (this s) (payer (payments s paymentId))
                             (amount (payments s paymentId))) s) (\<lambda>s1.
           let s2 = store (Write_status paymentId REFUNDED) s1
           in Inr (emit (paymentRefunded (payer (payments s2 paymentId))
                          (payee (payments s2 paymentId))
                          (amount (payments s2 paymentId))) s2)))))"

definition withdrawToken :: "address \<Rightarrow> PaymentEscrow \<Rightarrow> error + PaymentEscrow" where
  "withdrawToken sender s =
     onlyOwner sender s
      (bindE (external (TransferLeaseToken (this s) (owner s)
                         (checkLeaseToken (leaseTokenContract s) (this s))) s) (\<lambda>s1.
       Inr (emit (tokenWithdrawn (owner s1)
                   (checkLeaseToken (leaseTokenContract s1) (this s1))) s1)))"

subsection \<open>Setter methods\<close>

definition setProtectionFee :: "address \<Rightarrow> uint256 \<Rightarrow> PaymentEscrow \<Rightarrow> error + PaymentEscrow"
  where
  "setProtectionFee sender v s =
     onlyOwner sender s
      (invalidProtectionFee v
        (Inr (emit (protectionFeeSet v) (store (Write_protectionFee v) s))))"

definition setCommissionFee :: "address \<Rightarrow> uint256 \<Rightarrow> PaymentEscrow \<Rightarrow> error + PaymentEscrow"
  where
  "setCommissionFee sender v s =
     onlyOwner sender s
      (invalidCommissionFee v
        (Inr (emit (commissionFeeSet v) (store (Write_commissionFee v) s))))"

definition setRentalMarketplaceAddress ::
  "address \<Rightarrow> address \<Rightarrow> PaymentEscrow \<Rightarrow> error + PaymentEscrow" where
  "setRentalMarketplaceAddress sender a s =
     onlyOwner sender s
      (invalidRentalMarketplaceAddress a
        (Inr (emit (rentalMarketplaceAddressSet a)
               (store (Write_rentalMarketplaceAddress a) s))))"

definition setRentDisputeDAOAddress ::
  "address \<Rightarrow> address \<Rightarrow> PaymentEscrow \<Rightarrow> error + PaymentEscrow" where
  "setRentDisputeDAOAddress sender a s =
     onlyOwner sender s
      (invalidRentDisputeDAOAddress a
        (Inr (emit (rentDisputeDAOAddressSet a) (store (Write_rentDisputeDAOAddress a) s))))"

subsection \<open>Getter methods\<close>

definition getProtectionFee :: "PaymentEscrow \<Rightarrow> error + uint256" where
  "getProtectionFee s = Inr (protectionFee s)"

definition getCommissionFee :: "PaymentEscrow \<Rightarrow> error + uint256" where
  "getCommissionFee s = Inr (commissionFee s)"

definition getPayment :: "uint256 \<Rightarrow> PaymentEscrow \<Rightarrow> error + Payment" where
  "getPayment paymentId s = Inr (payments s paymentId)"

definition getNumOfPayments :: "PaymentEscrow \<Rightarrow> error + uint256" where
  "getNumOfPayments s = Inr (numOfPayments s)"

definition getBalance :: "PaymentEscrow \<Rightarrow> error + uint256" where
  "getBalance s = Inr (checkLeaseToken (leaseTokenContract s) (this s))"

subsection \<open>Transactions\<close>

text \<open>
  A transaction is a caller and a call of one of the contract's state-changing
  functions. A transaction that aborts leaves the state as it was.
\<close>

datatype call =
    CreatePayment address address uint256
  | Pay uint256
  | Release uint256
  | Refund uint256
  | WithdrawToken
  | SetProtectionFee uint256
  | SetCommissionFee uint256
  | SetRentalMarketplaceAddress address
  | SetRentDisputeDAOAddress address

fun dispatch :: "address \<Rightarrow> call \<Rightarrow> PaymentEscrow \<Rightarrow> error + PaymentEscrow" where
  "dispatch sender (CreatePayment p q v) s = bindE (createPayment sender p q v s) (\<lambda>r. Inr (snd r))"
| "dispatch sender (Pay i) s = pay sender i s"
| "dispatch sender (Release i) s = release sender i s"
| "dispatch sender (Refund i) s = refund sender i s"
| "dispatch sender WithdrawToken s = withdrawToken sender s"
| "dispatch sender (SetProtectionFee v) s = setProtectionFee sender v s"
| "dispatch sender (SetCommissionFee v) s = setCommissionFee sender v s"
| "dispatch sender (SetRentalMarketplaceAddress a) s = setRentalMarketplaceAddress sender a s"
| "dispatch sender (SetRentDisputeDAOAddress a) s = setRentDisputeDAOAddress sender a s"

definition exec :: "PaymentEscrow \<Rightarrow> address \<times> call \<Rightarrow> PaymentEscrow" where
  "exec s t = (case dispatch (fst t) (snd t) s of Inl e \<Rightarrow> s | Inr s' \<Rightarrow> s')"

fun run :: "PaymentEscrow \<Rightarrow> (address \<times> call) list \<Rightarrow> PaymentEscrow" where
  "run s [] = s"
| "run s (t # ts) = run (exec s t) ts"

subsection \<open>The lifecycle of the specification\<close>

text \<open>
  The state machine as the specification draws it:
  \<open>PENDING \<rightarrow> PAID \<rightarrow> {RELEASED, REFUNDED}\<close>. \<open>transition\<close> is one edge,
  \<open>forward\<close> is any number of edges, \<open>terminal\<close> is a state without outgoing edge.
\<close>

fun transition :: "PaymentStatus \<Rightarrow> PaymentStatus \<Rightarrow> bool" where
  "transition PENDING PAID = True"
| "transition PAID RELEASED = True"
| "transition PAID REFUNDED = True"
| "transition _ _ = False"

fun forward :: "PaymentStatus \<Rightarrow> PaymentStatus \<Rightarrow> bool" where
  "forward PENDING _ = True"
| "forward PAID PENDING = False"
| "forward PAID _ = True"
| "forward RELEASED b = (b = RELEASED)"
| "forward REFUNDED b = (b = REFUNDED)"

fun terminal :: "PaymentStatus \<Rightarrow> bool" where
  "terminal RELEASED = True"
| "terminal REFUNDED = True"
| "terminal _ = False"

text \<open>The effects a call added to the trace.\<close>

definition effects_of :: "PaymentEscrow \<Rightarrow> PaymentEscrow \<Rightarrow> effect list" where
  "effects_of s s' = drop (length (trace s)) (trace s')"

text \<open>
  The order the specification asks for: the write of the status comes before every
  state-changing call into the ledger.
\<close>

fun status_write_first :: "effect list \<Rightarrow> bool" where
  "status_write_first [] = True"
| "status_write_first (Call c # es) = False"
| "status_write_first (Store (Write_status i st) # es) = True"
| "status_write_first (e # es) = status_write_first es"

subsection \<open>Example states\<close>

text \<open>
  A ledger on which identity 2 (the payer) holds 1000 tokens; the escrow at address 100,
  deployed by identity 1 with protection fee 5 and commission fee 50; identity 7 bound as
  the marketplace and identity 8 as the dispute authority; then a payment of 1000 from 2
  to 3, created, paid, and released or refunded.
\<close>

definition ledger0 :: LeaseToken where
  "ledger0 = \<lparr>balanceOf = (\<lambda>_. 0)(2 := 1000), allowance = (\<lambda>_ _. 0)\<rparr>"

definition deployed :: PaymentEscrow where
  "deployed = constructor 100 ledger0 1 5 50"

definition configured :: PaymentEscrow where
  "configured =
     run deployed [(1, SetRentalMarketplaceAddress 7), (1, SetRentDisputeDAOAddress 8)]"

definition created :: PaymentEscrow where
  "created = run configured [(7, CreatePayment 2 3 1000)]"

definition paid :: PaymentEscrow where
  "paid = run created [(7, Pay 0)]"

definition released :: PaymentEscrow where
  "released = run paid [(7, Release 0)]"

definition refunded :: PaymentEscrow where
  "refunded = run paid [(8, Refund 0)]"

text \<open>
  The owner raises the commission fee to 70 after the payment was created and paid; the
  payment is released afterwards.
\<close>

definition repriced :: PaymentEscrow where
  "repriced = run paid [(1, SetCommissionFee 70)]"

definition settled :: PaymentEscrow where
  "settled = run repriced [(7, Release 0)]"

text \<open>A payment of 10 tokens, created and paid while the commission fee is 50.\<close>

definition small_paid :: PaymentEscrow where
  "small_paid = run configured [(7, CreatePayment 2 3 10), (7, Pay 0)]"

section \<open>Properties\<close>

subsection \<open>Auxiliary facts\<close>

lemmas modifier_defs =
  require_def onlyOwner_def onlyRentalMarketplace_def onlyRentDisputeDAO_def
  onlyRentalMarketplaceOrRentDisputeDAO_def checkSufficientBalance_def PaymentExists_def
  PaymentPending_def PaymentPaid_def invalidProtectionFee_def invalidCommissionFee_def
  invalidRentalMarketplaceAddress_def invalidRentDisputeDAOAddress_def

lemmas ledger_defs =
  checkLeaseToken_def approveLeaseToken_def moveLeaseToken_def transferLeaseToken_def
  transferLeaseTokenFrom_def checked_add_def checked_sub_def

lemmas function_defs =
  createPayment_def pay_def release_def refund_def withdrawToken_def setProtectionFee_def
  setCommissionFee_def setRentalMarketplaceAddress_def setRentDisputeDAOAddress_def
  external_def store_def emit_def

lemma bindE_simps [simp]: "bindE (Inl e) f = Inl e" "bindE (Inr x) f = f x"
  by (simp_all add: bindE_def)

lemma bindE_Inr_iff: "bindE m f = Inr y \<longleftrightarrow> (\<exists>x. m = Inr x \<and> f x = Inr y)"
  by (cases m) simp_all

lemma external_Inr_iff:
  "external c s = Inr s' \<longleftrightarrow>
     (\<exists>l. ledger_exec c (leaseTokenContract s) = Inr l \<and>
          s' = s\<lparr>leaseTokenContract := l, trace := trace s @ [Call c]\<rparr>)"
  by (auto simp: external_def bindE_Inr_iff)

lemma pay_Inr:
  assumes "pay sender i s = Inr s'"
  shows "sender = rentalMarketplaceAddress s" "i < numOfPayments s"
    "status (payments s i) = PENDING"
    "\<exists>l1 l2. approveLeaseToken (leaseTokenContract s) (payer (payments s i)) (this s)
                 (amount (payments s i)) = Inr l1 \<and>
             transferLeaseTokenFrom l1 (this s) (payer (payments s i)) (this s)
                 (amount (payments s i)) = Inr l2 \<and>
             s' = s\<lparr>leaseTokenContract := l2,
                    payments := (payments s)(i := (payments s i)\<lparr>status := PAID\<rparr>),
                    trace := trace s @
                      [Call (ApproveLeaseToken (payer (payments s i)) (this s)
                              (amount (payments s i))),
                       Call (TransferLeaseTokenFrom (this s) (payer (payments s i)) (this s)
                              (amount (payments s i))),
                       Store (Write_status i PAID),
                       Emit (paymentPaid (payer (payments s i)) (payee (payments s i))
                              (amount (payments s i)))]\<rparr>"
  using assms
  by (auto simp: pay_def modifier_defs bindE_Inr_iff external_Inr_iff store_def emit_def
      split: if_splits)

lemma release_Inr:
  assumes "release sender i s = Inr s'"
  shows "sender = rentalMarketplaceAddress s" "i < numOfPayments s"
    "status (payments s i) = PAID"
    "commissionFee s \<le> amount (payments s i)"
    "\<exists>l. transferLeaseToken (leaseTokenContract s) (this s) (payee (payments s i))
                 (amount (payments s i) - commissionFee s) = Inr l \<and>
             s' = s\<lparr>leaseTokenContract := l,
                    payments := (payments s)(i := (payments s i)\<lparr>status := RELEASED\<rparr>),
                    trace := trace s @
                      [Call (TransferLeaseToken (this s) (payee (payments s i))
                              (amount (payments s i) - commissionFee s)),
                       Store (Write_status i RELEASED),
                       Emit (paymentReleased (payer (payments s i)) (payee (payments s i))
                              (amount (payments s i)))]\<rparr>"
  using assms
  by (auto simp: release_def modifier_defs bindE_Inr_iff external_Inr_iff store_def emit_def
      checked_sub_def split: if_splits)

lemma refund_Inr:
  assumes "refund sender i s = Inr s'"
  shows "sender = rentalMarketplaceAddress s \<or> sender = rentDisputeDAOAddress s"
    "i < numOfPayments s" "status (payments s i) = PAID"
    "\<exists>l. transferLeaseToken (leaseTokenContract s) (this s) (payer (payments s i))
                 (amount (payments s i)) = Inr l \<and>
             s' = s\<lparr>leaseTokenContract := l,
                    payments := (payments s)(i := (payments s i)\<lparr>status := REFUNDED\<rparr>),
                    trace := trace s @
                      [Call (TransferLeaseToken (this s) (payer (payments s i))
                              (amount (payments s i))),
                       Store (Write_status i REFUNDED),
                       Emit (paymentRefunded (payer (payments s i)) (payee (payments s i))
                              (amount (payments s i)))]\<rparr>"
  using assms
  by (auto simp: refund_def modifier_defs bindE_Inr_iff external_Inr_iff store_def emit_def
      split: if_splits)

lemma createPayment_Inr:
  assumes "createPayment sender p q v s = Inr (r, s')"
  shows "sender = rentalMarketplaceAddress s \<or> sender = rentDisputeDAOAddress s"
    "v \<le> balanceOf (leaseTokenContract s) p"
    "unat (numOfPayments s) + 1 < 2 ^ 256"
    "r = numOfPayments s"
    "s' = s\<lparr>numOfPayments := numOfPayments s + 1,
             payments := (payments s)(numOfPayments s :=
                \<lparr>payer = p, payee = q, amount = v, status = PENDING\<rparr>),
             trace := trace s @
               [Store (Write_payment (numOfPayments s)
                         \<lparr>payer = p, payee = q, amount = v, status = PENDING\<rparr>),
                Store (Write_numOfPayments (numOfPayments s + 1)),
                Emit (paymentCreated p q v)]\<rparr>"
  using assms
  by (auto simp: createPayment_def modifier_defs bindE_Inr_iff store_def emit_def Let_def
      checked_sub_def checked_add_def checkLeaseToken_def split: if_splits)

lemma withdrawToken_Inr:
  assumes "withdrawToken sender s = Inr s'"
  shows "sender = owner s"
    "\<exists>l. transferLeaseToken (leaseTokenContract s) (this s) (owner s)
                 (balanceOf (leaseTokenContract s) (this s)) = Inr l \<and>
             s' = s\<lparr>leaseTokenContract := l,
                    trace := trace s @
                      [Call (TransferLeaseToken (this s) (owner s)
                              (balanceOf (leaseTokenContract s) (this s))),
                       Emit (tokenWithdrawn (owner s) (balanceOf l (this s)))]\<rparr>"
  using assms
  by (auto simp: withdrawToken_def modifier_defs bindE_Inr_iff external_Inr_iff emit_def
      checkLeaseToken_def split: if_splits)

lemma moveLeaseToken_Inr:
  assumes "moveLeaseToken l src dst v = Inr l'"
  shows "v \<le> balanceOf l src"
    "allowance l' = allowance l"
    "a \<noteq> src \<Longrightarrow> a \<noteq> dst \<Longrightarrow> balanceOf l' a = balanceOf l a"
    "src = dst \<Longrightarrow> balanceOf l' = balanceOf l"
    "src \<noteq> dst \<Longrightarrow> unat (balanceOf l' src) = unat (balanceOf l src) - unat v"
    "src \<noteq> dst \<Longrightarrow> unat (balanceOf l' dst) = unat (balanceOf l dst) + unat v"
  using assms
  by (auto simp: moveLeaseToken_def checked_add_def Let_def unat_sub word_le_nat_alt word_less_nat_alt
      unat_add_lem [THEN iffD1] fun_eq_iff split: if_splits)

lemma effects_of_append [simp]: "effects_of s (s'\<lparr>trace := trace s @ es\<rparr>) = es"
  by (simp add: effects_of_def)

lemma transferLeaseToken_Inr:
  assumes "transferLeaseToken l src dst v = Inr l'" "src \<noteq> dst"
  shows "unat v \<le> unat (balanceOf l src)"
    "unat (balanceOf l' src) = unat (balanceOf l src) - unat v"
    "unat (balanceOf l' dst) = unat (balanceOf l dst) + unat v"
    "\<forall>a. a \<noteq> src \<and> a \<noteq> dst \<longrightarrow> balanceOf l' a = balanceOf l a"
  using moveLeaseToken_Inr [of l src dst v l'] assms
  by (simp_all add: transferLeaseToken_def word_le_nat_alt)

lemma setters_Inr:
  "setProtectionFee sender v s = Inr s' \<Longrightarrow> payments s' = payments s \<and> numOfPayments s' = numOfPayments s \<and> 0 < v \<and> sender = owner s"
  "setCommissionFee sender v s = Inr s' \<Longrightarrow> payments s' = payments s \<and> numOfPayments s' = numOfPayments s\<and> 0 < v \<and> sender = owner s"
  "setRentalMarketplaceAddress sender a s = Inr s' \<Longrightarrow> payments s' = payments s \<and> numOfPayments s' = numOfPayments s"
  "setRentDisputeDAOAddress sender a s = Inr s' \<Longrightarrow> payments s' = payments s \<and> numOfPayments s' = numOfPayments s"
  by (auto simp: function_defs modifier_defs split: if_splits)

lemma exec_cases:
  "exec s t = s \<or> (\<exists>s'. dispatch (fst t) (snd t) s = Inr s' \<and> exec s t = s')"
  by (auto simp: exec_def split: sum.splits)

lemma numOfPayments_exec: "numOfPayments s \<le> numOfPayments (exec s t)"
proof (cases "dispatch (fst t) (snd t) s")
  case (Inl e)
  then show ?thesis by (simp add: exec_def)
next
  case (Inr s')
  then have "numOfPayments s \<le> numOfPayments s'"
  proof (cases "snd t")
    case (CreatePayment p q v)
    with Inr obtain r where "createPayment (fst t) p q v s = Inr (r, s')"
      by (auto simp: bindE_Inr_iff)
    from createPayment_Inr(3,5) [OF this] show ?thesis
      by (simp add: word_le_nat_alt unat_add_lem [THEN iffD1])
  qed (auto dest: pay_Inr release_Inr refund_Inr withdrawToken_Inr setters_Inr)
  with Inr show ?thesis by (simp add: exec_def)
qed


lemma step_record:
  assumes "i < numOfPayments s"
  shows "payments (exec s t) i = payments s i
     \<or> (snd t = Pay i \<and> fst t = rentalMarketplaceAddress s \<and> status (payments s i) = PENDING \<and>
          payments (exec s t) i = (payments s i)\<lparr>status := PAID\<rparr>)
     \<or> (snd t = Release i \<and> fst t = rentalMarketplaceAddress s \<and> status (payments s i) = PAID \<and>
          payments (exec s t) i = (payments s i)\<lparr>status := RELEASED\<rparr>)
     \<or> (snd t = Refund i \<and>
          (fst t = rentalMarketplaceAddress s \<or> fst t = rentDisputeDAOAddress s) \<and>
          status (payments s i) = PAID \<and>
          payments (exec s t) i = (payments s i)\<lparr>status := REFUNDED\<rparr>)"
proof (cases "dispatch (fst t) (snd t) s")
  case (Inl e)
  then show ?thesis by (simp add: exec_def)
next
  case (Inr s')
  then have s': "exec s t = s'" by (simp add: exec_def)
  show ?thesis
  proof (cases "snd t")
    case (CreatePayment p q v)
    with Inr obtain r where "createPayment (fst t) p q v s = Inr (r, s')"
      by (auto simp: bindE_Inr_iff)
    from createPayment_Inr(5) [OF this] assms show ?thesis
      unfolding s' by auto
  next
    case (Pay j)
    with Inr have "pay (fst t) j s = Inr s'" by simp
    from pay_Inr [OF this] Pay show ?thesis
      unfolding s' by (cases "j = i") auto
  next
    case (Release j)
    with Inr have "release (fst t) j s = Inr s'" by simp
    from release_Inr [OF this] Release show ?thesis
      unfolding s' by (cases "j = i") auto
  next
    case (Refund j)
    with Inr have "refund (fst t) j s = Inr s'" by simp
    from refund_Inr [OF this] Refund show ?thesis
      unfolding s' by (cases "j = i") auto
  next
    case WithdrawToken
    with Inr have "withdrawToken (fst t) s = Inr s'" by simp
    from withdrawToken_Inr [OF this] show ?thesis
      unfolding s' by auto
  qed (use Inr in \<open>auto simp: s' dest: setters_Inr\<close>)
qed

lemma forward_step:
  assumes "i < numOfPayments s"
  shows "forward (status (payments s i)) (status (payments (exec s t) i))"
  using step_record [OF assms, of t]
  by (cases "status (payments s i)") auto

lemma forward_refl: "forward a a"
  by (cases a) simp_all

lemma forward_trans: "forward a b \<Longrightarrow> forward b c \<Longrightarrow> forward a c"
  by (cases a; cases b; cases c) simp_all

lemma terminal_step:
  assumes "i < numOfPayments s" "terminal (status (payments s i))"
  shows "payments (exec s t) i = payments s i"
  using step_record [OF assms(1), of t] assms(2)
  by auto

lemma forward_run:
  "i < numOfPayments s \<Longrightarrow> forward (status (payments s i)) (status (payments (run s ts) i))"
proof (induction ts arbitrary: s)
  case Nil
  then show ?case by (simp add: forward_refl)
next
  case (Cons t ts)
  have "i < numOfPayments (exec s t)"
    using Cons.prems numOfPayments_exec [of s t] by simp
  from Cons.IH [OF this] forward_step [OF Cons.prems, of t] show ?case
    by (auto intro: forward_trans)
qed

lemma terminal_run:
  "i < numOfPayments s \<Longrightarrow> terminal (status (payments s i)) \<Longrightarrow>
   payments (run s ts) i = payments s i"
proof (induction ts arbitrary: s)
  case Nil
  then show ?case by simp
next
  case (Cons t ts)
  have n: "i < numOfPayments (exec s t)"
    using Cons.prems(1) numOfPayments_exec [of s t] by simp
  have e: "payments (exec s t) i = payments s i"
    using Cons.prems by (rule terminal_step)
  with Cons.IH [OF n] Cons.prems(2) show ?case by simp
qed


subsection \<open>The example, evaluated\<close>

lemmas example_defs =
  ledger0_def deployed_def configured_def created_def paid_def released_def refunded_def
  repriced_def constructor_def exec_def zero_Payment_def

lemma terminal_rejected:
  assumes "i < numOfPayments s" "terminal (status (payments s i))"
  shows "\<exists>e. pay sender i s = Inl e \<and>
              (sender = rentalMarketplaceAddress s \<longrightarrow> classify e = InvalidState)"
    "\<exists>e. release sender i s = Inl e \<and>
              (sender = rentalMarketplaceAddress s \<longrightarrow> classify e = InvalidState)"
    "\<exists>e. refund sender i s = Inl e \<and>
              (sender = rentalMarketplaceAddress s \<or> sender = rentDisputeDAOAddress s \<longrightarrow>
               classify e = InvalidState)"
  using assms
  by (cases "status (payments s i)"; simp add: pay_def release_def refund_def modifier_defs)+

lemma created_pay: "pay 7 0 created = Inr paid"
  by (simp add: example_defs function_defs modifier_defs ledger_defs)

lemma paid_release: "release 7 0 paid = Inr released"
  by (simp add: example_defs function_defs modifier_defs ledger_defs)

lemma paid_refund: "refund 8 0 paid = Inr refunded"
  by (simp add: example_defs function_defs modifier_defs ledger_defs)

lemma example_counts:
  "numOfPayments created = 1" "numOfPayments paid = 1" "numOfPayments released = 1"
  "numOfPayments refunded = 1"
  by (simp_all add: example_defs function_defs modifier_defs ledger_defs)

lemma example_payments:
  "payments created 0 = \<lparr>payer = 2, payee = 3, amount = 1000, status = PENDING\<rparr>"
  "payments paid 0 = \<lparr>payer = 2, payee = 3, amount = 1000, status = PAID\<rparr>"
  "payments released 0 = \<lparr>payer = 2, payee = 3, amount = 1000, status = RELEASED\<rparr>"
  "payments refunded 0 = \<lparr>payer = 2, payee = 3, amount = 1000, status = REFUNDED\<rparr>"
  by (simp_all add: example_defs function_defs modifier_defs ledger_defs)

lemma example_roles:
  "rentalMarketplaceAddress created = 7" "rentalMarketplaceAddress paid = 7"
  "rentalMarketplaceAddress released = 7" "rentalMarketplaceAddress refunded = 7"
  "rentDisputeDAOAddress paid = 8" "rentDisputeDAOAddress released = 8"
  "rentDisputeDAOAddress refunded = 8" "owner released = 1" "owner refunded = 1"
  by (simp_all add: example_defs function_defs modifier_defs ledger_defs)

subsection \<open>The lifecycle of a payment\<close>

text \<open>
  C1. For every payment record (an id below the payment count) the status only moves
  forward along \<open>PENDING \<rightarrow> PAID \<rightarrow> {RELEASED, REFUNDED}\<close>: \<open>pay\<close> succeeds only on a
  \<open>PENDING\<close> record and makes it \<open>PAID\<close>; \<open>release\<close> and \<open>refund\<close> succeed only on a
  \<open>PAID\<close> record and make it \<open>RELEASED\<close> and \<open>REFUNDED\<close>; every transaction leaves the
  record as it was or moves its status along one edge, changing no other field, and the
  edge is the one of the function that was called (\<open>pay\<close> or \<open>release\<close> by the
  marketplace, \<open>refund\<close> by the marketplace or the dispute authority); after
  every sequence of transactions the status is one that lies forward of the first; and
  once the record is \<open>RELEASED\<close> or \<open>REFUNDED\<close> no sequence of transactions changes it,
  and \<open>pay\<close>, \<open>release\<close> and \<open>refund\<close> on it are rejected, with \<open>InvalidState\<close> when the
  caller passes the access check of the function.
\<close>

theorem payment_status_lifecycle:
  assumes "i < numOfPayments s"
  shows
    "(pay sender i s = Inr s' \<longrightarrow>
        status (payments s i) = PENDING \<and> payments s' i = (payments s i)\<lparr>status := PAID\<rparr>) \<and>
     (release sender i s = Inr s' \<longrightarrow>
        status (payments s i) = PAID \<and> payments s' i = (payments s i)\<lparr>status := RELEASED\<rparr>) \<and>
     (refund sender i s = Inr s' \<longrightarrow>
        status (payments s i) = PAID \<and> payments s' i = (payments s i)\<lparr>status := REFUNDED\<rparr>) \<and>
     (payments (exec s t) i = payments s i \<or>
      transition (status (payments s i)) (status (payments (exec s t) i)) \<and>
      payments (exec s t) i = (payments s i)\<lparr>status := status (payments (exec s t) i)\<rparr>) \<and>
     (payments (exec s t) i = payments s i \<or>
      snd t = Pay i \<and> fst t = rentalMarketplaceAddress s \<and>
        status (payments s i) = PENDING \<and> status (payments (exec s t) i) = PAID \<or>
      snd t = Release i \<and> fst t = rentalMarketplaceAddress s \<and>
        status (payments s i) = PAID \<and> status (payments (exec s t) i) = RELEASED \<or>
      snd t = Refund i \<and>
        (fst t = rentalMarketplaceAddress s \<or> fst t = rentDisputeDAOAddress s) \<and>
        status (payments s i) = PAID \<and> status (payments (exec s t) i) = REFUNDED) \<and>
     forward (status (payments s i)) (status (payments (run s ts) i)) \<and>
     (terminal (status (payments s i)) \<longrightarrow>
        payments (run s ts) i = payments s i \<and>
        (\<exists>e. pay sender i s = Inl e \<and>
              (sender = rentalMarketplaceAddress s \<longrightarrow> classify e = InvalidState)) \<and>
        (\<exists>e. release sender i s = Inl e \<and>
              (sender = rentalMarketplaceAddress s \<longrightarrow> classify e = InvalidState)) \<and>
        (\<exists>e. refund sender i s = Inl e \<and>
              (sender = rentalMarketplaceAddress s \<or> sender = rentDisputeDAOAddress s \<longrightarrow>
               classify e = InvalidState)))"
proof -
  have p: "pay sender i s = Inr s' \<longrightarrow>
        status (payments s i) = PENDING \<and> payments s' i = (payments s i)\<lparr>status := PAID\<rparr>"
    by (auto dest: pay_Inr)
  have r: "release sender i s = Inr s' \<longrightarrow>
        status (payments s i) = PAID \<and> payments s' i = (payments s i)\<lparr>status := RELEASED\<rparr>"
    by (auto dest: release_Inr)
  have f: "refund sender i s = Inr s' \<longrightarrow>
        status (payments s i) = PAID \<and> payments s' i = (payments s i)\<lparr>status := REFUNDED\<rparr>"
    by (auto dest: refund_Inr)
  have st: "payments (exec s t) i = payments s i \<or>
      transition (status (payments s i)) (status (payments (exec s t) i)) \<and>
      payments (exec s t) i = (payments s i)\<lparr>status := status (payments (exec s t) i)\<rparr>"
    using step_record [OF assms, of t] by auto
  have who: "payments (exec s t) i = payments s i \<or>
      snd t = Pay i \<and> fst t = rentalMarketplaceAddress s \<and>
        status (payments s i) = PENDING \<and> status (payments (exec s t) i) = PAID \<or>
      snd t = Release i \<and> fst t = rentalMarketplaceAddress s \<and>
        status (payments s i) = PAID \<and> status (payments (exec s t) i) = RELEASED \<or>
      snd t = Refund i \<and>
        (fst t = rentalMarketplaceAddress s \<or> fst t = rentDisputeDAOAddress s) \<and>
        status (payments s i) = PAID \<and> status (payments (exec s t) i) = REFUNDED"
    using step_record [OF assms, of t] by auto
  note fw = forward_run [OF assms, of ts]
  note tr = terminal_run [OF assms, of ts]
  note rej = terminal_rejected [OF assms, of sender]
  from p r f st who fw tr rej show ?thesis by blast
qed

text \<open>
  The payment of the example goes through \<open>PENDING\<close>, \<open>PAID\<close> and \<open>RELEASED\<close> (or
  \<open>REFUNDED\<close>); later calls by the marketplace, the dispute authority and the owner
  leave the closed record as it is.
\<close>

theorem payment_status_lifecycle_witness:
  "(0 :: uint256) < numOfPayments created \<and>
   status (payments created 0) = PENDING \<and>
   status (payments paid 0) = PAID \<and>
   status (payments released 0) = RELEASED \<and>
   status (payments refunded 0) = REFUNDED \<and>
   payments (run released [(7, Pay 0), (7, Release 0), (8, Refund 0), (1, WithdrawToken)]) 0 =
     payments released 0 \<and>
   payments (run refunded [(7, Pay 0), (7, Release 0), (7, Refund 0)]) 0 = payments refunded 0 \<and>
   (\<exists>e. release 7 0 released = Inl e \<and> classify e = InvalidState) \<and>
   (\<exists>e. refund 8 0 released = Inl e \<and> classify e = InvalidState) \<and>
   (\<exists>e. pay 7 0 refunded = Inl e \<and> classify e = InvalidState)"
  using
    payment_status_lifecycle [of 0 created 7 paid]
    payment_status_lifecycle [of 0 paid 7 released]
    payment_status_lifecycle [of 0 paid 8 refunded]
    payment_status_lifecycle [of 0 released 7 _ _
      "[(7, Pay 0), (7, Release 0), (8, Refund 0), (1, WithdrawToken)]"]
    payment_status_lifecycle [of 0 released 8]
    payment_status_lifecycle [of 0 refunded 7 _ _ "[(7, Pay 0), (7, Release 0), (7, Refund 0)]"]
  by (simp add: created_pay paid_release paid_refund example_counts example_payments
      example_roles)

subsection \<open>Release\<close>

text \<open>
  C2. A successful \<open>release\<close> of a payment with amount \<open>A\<close>, made while the commission
  fee is \<open>F\<close>, finds the record \<open>PAID\<close>, has \<open>F \<le> A\<close>, and makes exactly one transfer on
  the ledger: \<open>A - F\<close> from the escrow to the payee. When the payee is not the escrow
  itself, the payee's balance grows by \<open>A - F\<close> and the escrow's holding balance shrinks
  by \<open>A - F\<close>, so that \<open>F\<close> of the amount stays in the escrow; no other balance changes.
  The record becomes \<open>RELEASED\<close> with its other fields as they were, and the event
  carries the amount \<open>A\<close>. The fee \<open>F\<close> is the one stored when \<open>release\<close> is called: the
  record holds no fee.
\<close>

theorem release_pays_amount_less_commission:
  assumes "release sender i s = Inr s'"
    and "amount (payments s i) = A" and "commissionFee s = F"
    and "payee (payments s i) = q"
  shows
    "status (payments s i) = PAID \<and> unat F \<le> unat A \<and>
     transferLeaseToken (leaseTokenContract s) (this s) q (A - F) =
       Inr (leaseTokenContract s') \<and>
     unat (A - F) = unat A - unat F \<and>
     (q \<noteq> this s \<longrightarrow>
        unat (balanceOf (leaseTokenContract s') q) =
          unat (balanceOf (leaseTokenContract s) q) + (unat A - unat F) \<and>
        unat (balanceOf (leaseTokenContract s') (this s)) =
          unat (balanceOf (leaseTokenContract s) (this s)) - (unat A - unat F) \<and>
        unat A - unat F \<le> unat (balanceOf (leaseTokenContract s) (this s)) \<and>
        (\<forall>a. a \<noteq> this s \<and> a \<noteq> q \<longrightarrow>
           balanceOf (leaseTokenContract s') a = balanceOf (leaseTokenContract s) a)) \<and>
     payments s' = (payments s)(i := (payments s i)\<lparr>status := RELEASED\<rparr>) \<and>
     commissionFee s' = F \<and>
     effects_of s s' =
       [Call (TransferLeaseToken (this s) q (A - F)),
        Store (Write_status i RELEASED),
        Emit (paymentReleased (payer (payments s i)) q A)]"
proof -
  from release_Inr [OF assms(1)] assms(2-4) obtain l where
    st: "status (payments s i) = PAID" and le: "F \<le> A" and
    tr: "transferLeaseToken (leaseTokenContract s) (this s) q (A - F) = Inr l" and
    s': "s' = s\<lparr>leaseTokenContract := l,
                 payments := (payments s)(i := (payments s i)\<lparr>status := RELEASED\<rparr>),
                 trace := trace s @
                   [Call (TransferLeaseToken (this s) q (A - F)),
                    Store (Write_status i RELEASED),
                    Emit (paymentReleased (payer (payments s i)) q A)]\<rparr>"
    by auto
  have net: "unat (A - F) = unat A - unat F"
    using le by (rule unat_sub)
  have l: "leaseTokenContract s' = l" by (simp add: s')
  have bal: "q \<noteq> this s \<longrightarrow>
        unat (balanceOf l q) = unat (balanceOf (leaseTokenContract s) q) + (unat A - unat F) \<and>
        unat (balanceOf l (this s)) =
          unat (balanceOf (leaseTokenContract s) (this s)) - (unat A - unat F) \<and>
        unat A - unat F \<le> unat (balanceOf (leaseTokenContract s) (this s)) \<and>
        (\<forall>a. a \<noteq> this s \<and> a \<noteq> q \<longrightarrow> balanceOf l a = balanceOf (leaseTokenContract s) a)"
    using transferLeaseToken_Inr [OF tr] by (simp add: net)
  have eff: "effects_of s s' =
       [Call (TransferLeaseToken (this s) q (A - F)),
        Store (Write_status i RELEASED),
        Emit (paymentReleased (payer (payments s i)) q A)]"
    by (simp add: s' effects_of_def)
  have pm: "payments s' = (payments s)(i := (payments s i)\<lparr>status := RELEASED\<rparr>)"
    and fee: "commissionFee s' = F"
    using assms(3) by (simp_all add: s')
  from st le tr net bal eff pm fee show ?thesis
    by (simp add: l word_le_nat_alt)
qed

lemma repriced_release: "release 7 0 repriced = Inr settled"
  by (simp add: settled_def example_defs function_defs modifier_defs ledger_defs)

lemma repriced_facts:
  "payments repriced 0 = \<lparr>payer = 2, payee = 3, amount = 1000, status = PAID\<rparr>"
  "commissionFee repriced = 70" "this repriced = 100"
  "balanceOf (leaseTokenContract repriced) 100 = 1000"
  "balanceOf (leaseTokenContract repriced) 3 = 0"
  "commissionFee created = 50"
  by (simp_all add: example_defs function_defs modifier_defs ledger_defs)

text \<open>
  The payment of 1000 was created and paid under a commission fee of 50 and is released
  under a fee of 70: the payee receives 930 and 70 stay in the escrow.
\<close>

theorem release_pays_amount_less_commission_witness:
  "commissionFee created = 50 \<and> commissionFee repriced = 70 \<and>
   amount (payments repriced 0) = 1000 \<and>
   release 7 0 repriced = Inr settled \<and>
   unat (balanceOf (leaseTokenContract settled) 3) = 930 \<and>
   unat (balanceOf (leaseTokenContract settled) 100) = 70 \<and>
   status (payments settled 0) = RELEASED"
  using release_pays_amount_less_commission [OF repriced_release, of 1000 70 3]
  by (simp add: repriced_release repriced_facts)

subsection \<open>Refund\<close>

lemma refund_fee_independent:
  "refund sender i (s\<lparr>protectionFee := p, commissionFee := c\<rparr>) =
     map_sum id (\<lambda>s'. s'\<lparr>protectionFee := p, commissionFee := c\<rparr>) (refund sender i s)"
  by (cases "ledger_exec (TransferLeaseToken (this s) (payer (payments s i))
                (amount (payments s i))) (leaseTokenContract s)")
    (simp_all add: refund_def modifier_defs external_def store_def emit_def)

text \<open>
  C3. A successful \<open>refund\<close> of a payment with amount \<open>A\<close> finds the record \<open>PAID\<close> and
  makes exactly one transfer on the ledger: the full amount \<open>A\<close> from the escrow to the
  payer. When the payer is not the escrow itself, the payer's balance grows by \<open>A\<close> and
  the escrow's holding balance shrinks by \<open>A\<close>; no other balance changes. The record
  becomes \<open>REFUNDED\<close> with its other fields as they were. Neither fee is read: with any
  other protection fee and commission fee in the state the call succeeds in the same way,
  with the same ledger, payments and effects.
\<close>

theorem refund_returns_full_amount:
  assumes "refund sender i s = Inr s'"
    and "amount (payments s i) = A" and "payer (payments s i) = p"
  shows
    "status (payments s i) = PAID \<and>
     transferLeaseToken (leaseTokenContract s) (this s) p A = Inr (leaseTokenContract s') \<and>
     (p \<noteq> this s \<longrightarrow>
        unat (balanceOf (leaseTokenContract s') p) =
          unat (balanceOf (leaseTokenContract s) p) + unat A \<and>
        unat (balanceOf (leaseTokenContract s') (this s)) =
          unat (balanceOf (leaseTokenContract s) (this s)) - unat A \<and>
        unat A \<le> unat (balanceOf (leaseTokenContract s) (this s)) \<and>
        (\<forall>a. a \<noteq> this s \<and> a \<noteq> p \<longrightarrow>
           balanceOf (leaseTokenContract s') a = balanceOf (leaseTokenContract s) a)) \<and>
     payments s' = (payments s)(i := (payments s i)\<lparr>status := REFUNDED\<rparr>) \<and>
     effects_of s s' =
       [Call (TransferLeaseToken (this s) p A),
        Store (Write_status i REFUNDED),
        Emit (paymentRefunded p (payee (payments s i)) A)] \<and>
     (\<forall>pf cf. refund sender i (s\<lparr>protectionFee := pf, commissionFee := cf\<rparr>) =
        Inr (s'\<lparr>protectionFee := pf, commissionFee := cf\<rparr>))"
proof -
  from refund_Inr [OF assms(1)] assms(2,3) obtain l where
    st: "status (payments s i) = PAID" and
    tr: "transferLeaseToken (leaseTokenContract s) (this s) p A = Inr l" and
    s': "s' = s\<lparr>leaseTokenContract := l,
                 payments := (payments s)(i := (payments s i)\<lparr>status := REFUNDED\<rparr>),
                 trace := trace s @
                   [Call (TransferLeaseToken (this s) p A),
                    Store (Write_status i REFUNDED),
                    Emit (paymentRefunded p (payee (payments s i)) A)]\<rparr>"
    by auto
  have l: "leaseTokenContract s' = l" by (simp add: s')
  have bal: "p \<noteq> this s \<longrightarrow>
        unat (balanceOf l p) = unat (balanceOf (leaseTokenContract s) p) + unat A \<and>
        unat (balanceOf l (this s)) = unat (balanceOf (leaseTokenContract s) (this s)) - unat A \<and>
        unat A \<le> unat (balanceOf (leaseTokenContract s) (this s)) \<and>
        (\<forall>a. a \<noteq> this s \<and> a \<noteq> p \<longrightarrow> balanceOf l a = balanceOf (leaseTokenContract s) a)"
    using transferLeaseToken_Inr [OF tr] by simp
  have eff: "effects_of s s' =
       [Call (TransferLeaseToken (this s) p A),
        Store (Write_status i REFUNDED),
        Emit (paymentRefunded p (payee (payments s i)) A)]"
    by (simp add: s' effects_of_def)
  have pm: "payments s' = (payments s)(i := (payments s i)\<lparr>status := REFUNDED\<rparr>)"
    by (simp add: s')
  have fee: "\<forall>pf cf. refund sender i (s\<lparr>protectionFee := pf, commissionFee := cf\<rparr>) =
        Inr (s'\<lparr>protectionFee := pf, commissionFee := cf\<rparr>)"
    by (simp add: refund_fee_independent assms(1))
  from st tr bal eff pm fee show ?thesis
    by (simp add: l)
qed

lemma paid_facts:
  "this paid = 100"
  "balanceOf (leaseTokenContract paid) 100 = 1000"
  "balanceOf (leaseTokenContract paid) 2 = 0"
  "commissionFee paid = 50" "protectionFee paid = 5"
  by (simp_all add: example_defs function_defs modifier_defs ledger_defs)

text \<open>
  The dispute authority refunds the payment of 1000: the payer has 1000 again and the
  escrow holds nothing, under the fees 5 and 50 and as well under the fees 900 and 999.
\<close>

theorem refund_returns_full_amount_witness:
  "refund 8 0 paid = Inr refunded \<and>
   amount (payments paid 0) = 1000 \<and> payer (payments paid 0) = 2 \<and>
   commissionFee paid = 50 \<and> protectionFee paid = 5 \<and>
   unat (balanceOf (leaseTokenContract refunded) 2) = 1000 \<and>
   unat (balanceOf (leaseTokenContract refunded) 100) = 0 \<and>
   status (payments refunded 0) = REFUNDED \<and>
   refund 8 0 (paid\<lparr>protectionFee := 900, commissionFee := 999\<rparr>) =
     Inr (refunded\<lparr>protectionFee := 900, commissionFee := 999\<rparr>)"
  using refund_returns_full_amount [OF paid_refund, of 1000 2]
  by (simp add: paid_refund paid_facts example_payments)

subsection \<open>Access control\<close>

text \<open>
  C4. A caller that is not the bound marketplace identity is rejected by \<open>pay\<close> and by
  \<open>release\<close> with the error of the modifier \<open>onlyRentalMarketplace\<close>, of class
  \<open>Unauthorized\<close>, whatever the id, and the rejected transaction leaves the whole state
  (every record, the payment count) as it was. \<open>refund\<close> rejects a caller as unauthorised
  exactly when it is neither the marketplace nor the dispute authority: called by either
  of the two on an existing \<open>PAID\<close> record whose amount the ledger can transfer, it
  succeeds.
\<close>

theorem only_marketplace_pays_and_releases:
  "(sender \<noteq> rentalMarketplaceAddress s \<longrightarrow>
      pay sender i s = Inl OnlyRentalMarketplace \<and>
      release sender i s = Inl OnlyRentalMarketplace \<and>
      classify OnlyRentalMarketplace = Unauthorized \<and>
      exec s (sender, Pay i) = s \<and> exec s (sender, Release i) = s) \<and>
   (sender \<noteq> rentalMarketplaceAddress s \<and> sender \<noteq> rentDisputeDAOAddress s \<longrightarrow>
      refund sender i s = Inl OnlyRentalMarketplaceOrRentDisputeDAO \<and>
      classify OnlyRentalMarketplaceOrRentDisputeDAO = Unauthorized \<and>
      exec s (sender, Refund i) = s) \<and>
   (sender = rentalMarketplaceAddress s \<or> sender = rentDisputeDAOAddress s \<longrightarrow>
      refund sender i s \<noteq> Inl OnlyRentalMarketplaceOrRentDisputeDAO \<and>
      (i < numOfPayments s \<and> status (payments s i) = PAID \<and>
       transferLeaseToken (leaseTokenContract s) (this s) (payer (payments s i))
         (amount (payments s i)) = Inr l \<longrightarrow>
       refund sender i s =
         Inr (s\<lparr>leaseTokenContract := l,
                payments := (payments s)(i := (payments s i)\<lparr>status := REFUNDED\<rparr>),
                trace := trace s @
                  [Call (TransferLeaseToken (this s) (payer (payments s i))
                          (amount (payments s i))),
                   Store (Write_status i REFUNDED),
                   Emit (paymentRefunded (payer (payments s i)) (payee (payments s i))
                          (amount (payments s i)))]\<rparr>)))"
proof -
  have a: "sender \<noteq> rentalMarketplaceAddress s \<longrightarrow>
      pay sender i s = Inl OnlyRentalMarketplace \<and>
      release sender i s = Inl OnlyRentalMarketplace \<and>
      classify OnlyRentalMarketplace = Unauthorized \<and>
      exec s (sender, Pay i) = s \<and> exec s (sender, Release i) = s"
    by (simp add: pay_def release_def onlyRentalMarketplace_def require_def exec_def)
  have b: "sender \<noteq> rentalMarketplaceAddress s \<and> sender \<noteq> rentDisputeDAOAddress s \<longrightarrow>
      refund sender i s = Inl OnlyRentalMarketplaceOrRentDisputeDAO \<and>
      classify OnlyRentalMarketplaceOrRentDisputeDAO = Unauthorized \<and>
      exec s (sender, Refund i) = s"
    by (simp add: refund_def onlyRentalMarketplaceOrRentDisputeDAO_def require_def exec_def)
  have c: "sender = rentalMarketplaceAddress s \<or> sender = rentDisputeDAOAddress s \<longrightarrow>
      refund sender i s \<noteq> Inl OnlyRentalMarketplaceOrRentDisputeDAO"
    by (auto simp: refund_def modifier_defs external_def store_def emit_def bindE_def
        ledger_defs Let_def split: if_splits sum.splits)
  have d: "(sender = rentalMarketplaceAddress s \<or> sender = rentDisputeDAOAddress s) \<longrightarrow>
      (i < numOfPayments s \<and> status (payments s i) = PAID \<and>
       transferLeaseToken (leaseTokenContract s) (this s) (payer (payments s i))
         (amount (payments s i)) = Inr l \<longrightarrow>
       refund sender i s =
         Inr (s\<lparr>leaseTokenContract := l,
                payments := (payments s)(i := (payments s i)\<lparr>status := REFUNDED\<rparr>),
                trace := trace s @
                  [Call (TransferLeaseToken (this s) (payer (payments s i))
                          (amount (payments s i))),
                   Store (Write_status i REFUNDED),
                   Emit (paymentRefunded (payer (payments s i)) (payee (payments s i))
                          (amount (payments s i)))]\<rparr>))"
    by (auto simp: refund_def modifier_defs external_def store_def emit_def)
  from a b c d show ?thesis by blast
qed


lemma paid_transfer:
  "transferLeaseToken (leaseTokenContract paid) 100 2 1000 = Inr (leaseTokenContract refunded)"
  by (simp add: example_defs function_defs modifier_defs ledger_defs)

text \<open>
  On the paid payment of the example, identity 9 is a stranger, 7 the marketplace and 8
  the dispute authority.
\<close>

theorem only_marketplace_pays_and_releases_witness:
  "pay 9 0 paid = Inl OnlyRentalMarketplace \<and>
   release 9 0 paid = Inl OnlyRentalMarketplace \<and>
   release 8 0 paid = Inl OnlyRentalMarketplace \<and>
   exec paid (9, Pay 0) = paid \<and> exec paid (8, Release 0) = paid \<and>
   refund 9 0 paid = Inl OnlyRentalMarketplaceOrRentDisputeDAO \<and>
   exec paid (9, Refund 0) = paid \<and>
   refund 8 0 paid = refund 7 0 paid \<and>
   status (payments (projr (refund 7 0 paid)) 0) = REFUNDED"
  using
    only_marketplace_pays_and_releases [of 9 paid 0]
    only_marketplace_pays_and_releases [of 8 paid 0 "leaseTokenContract refunded"]
    only_marketplace_pays_and_releases [of 7 paid 0 "leaseTokenContract refunded"]
  by (simp add: example_roles example_counts example_payments paid_facts paid_transfer)

subsection \<open>Creation\<close>

lemma createPayment_Inr_iff:
  "createPayment sender p q v s = Inr (r, s') \<longleftrightarrow>
     (sender = rentalMarketplaceAddress s \<or> sender = rentDisputeDAOAddress s) \<and>
     v \<le> balanceOf (leaseTokenContract s) p \<and>
     unat (numOfPayments s) + 1 < 2 ^ 256 \<and>
     r = numOfPayments s \<and>
     s' = s\<lparr>numOfPayments := numOfPayments s + 1,
             payments := (payments s)(numOfPayments s :=
                \<lparr>payer = p, payee = q, amount = v, status = PENDING\<rparr>),
             trace := trace s @
               [Store (Write_payment (numOfPayments s)
                         \<lparr>payer = p, payee = q, amount = v, status = PENDING\<rparr>),
                Store (Write_numOfPayments (numOfPayments s + 1)),
                Emit (paymentCreated p q v)]\<rparr>"
  (is "?l \<longleftrightarrow> ?r")
proof
  assume ?l
  from createPayment_Inr [OF this] show ?r by simp
next
  assume ?r
  then show ?l
    by (simp add: createPayment_def modifier_defs store_def emit_def Let_def
        checked_sub_def checked_add_def checkLeaseToken_def word_le_nat_alt
        unat_add_lem [THEN iffD1])
qed

text \<open>
  C5, as amended. \<open>createPayment\<close> does not require a positive amount: it requires that
  the caller is the marketplace or the dispute authority, that the payer's ledger balance
  is at least the amount (which the amount 0 always satisfies) and that the payment count
  can still be advanced. When the payer's balance is below the amount the call is
  rejected (with the error of \<open>checkSufficientBalance\<close>, of class \<open>InsufficientFunds\<close>,
  for an authorised caller), and the rejected transaction leaves the state, its records
  and its count as they were. A successful call writes a new \<open>PENDING\<close> record with the
  given payer, payee and amount at the old count, leaves every other record as it was,
  advances the count by one and returns the old count as the new id.
\<close>

theorem createPayment_funding_check:
  "(balanceOf (leaseTokenContract s) p < v \<longrightarrow>
      (\<exists>e. createPayment sender p q v s = Inl e) \<and>
      (sender = rentalMarketplaceAddress s \<or> sender = rentDisputeDAOAddress s \<longrightarrow>
         createPayment sender p q v s = Inl PayerNotEnoughBalance \<and>
         classify PayerNotEnoughBalance = InsufficientFunds) \<and>
      exec s (sender, CreatePayment p q v) = s) \<and>
   (createPayment sender p q v s = Inr (r, s') \<longleftrightarrow>
      (sender = rentalMarketplaceAddress s \<or> sender = rentDisputeDAOAddress s) \<and>
      v \<le> balanceOf (leaseTokenContract s) p \<and>
      unat (numOfPayments s) + 1 < 2 ^ 256 \<and>
      r = numOfPayments s \<and>
      s' = s\<lparr>numOfPayments := numOfPayments s + 1,
              payments := (payments s)(numOfPayments s :=
                 \<lparr>payer = p, payee = q, amount = v, status = PENDING\<rparr>),
              trace := trace s @
                [Store (Write_payment (numOfPayments s)
                          \<lparr>payer = p, payee = q, amount = v, status = PENDING\<rparr>),
                 Store (Write_numOfPayments (numOfPayments s + 1)),
                 Emit (paymentCreated p q v)]\<rparr>) \<and>
   (createPayment sender p q v s = Inr (r, s') \<longrightarrow>
      unat (numOfPayments s') = unat (numOfPayments s) + 1 \<and>
      payments s' r = \<lparr>payer = p, payee = q, amount = v, status = PENDING\<rparr> \<and>
      (\<forall>j. j \<noteq> r \<longrightarrow> payments s' j = payments s j))"
proof -
  have rej: "balanceOf (leaseTokenContract s) p < v \<longrightarrow>
      (\<exists>e. createPayment sender p q v s = Inl e) \<and>
      (sender = rentalMarketplaceAddress s \<or> sender = rentDisputeDAOAddress s \<longrightarrow>
         createPayment sender p q v s = Inl PayerNotEnoughBalance \<and>
         classify PayerNotEnoughBalance = InsufficientFunds) \<and>
      exec s (sender, CreatePayment p q v) = s"
    by (auto simp: createPayment_def modifier_defs checkLeaseToken_def exec_def)
  have after: "createPayment sender p q v s = Inr (r, s') \<longrightarrow>
      unat (numOfPayments s') = unat (numOfPayments s) + 1 \<and>
      payments s' r = \<lparr>payer = p, payee = q, amount = v, status = PENDING\<rparr> \<and>
      (\<forall>j. j \<noteq> r \<longrightarrow> payments s' j = payments s j)"
    by (auto simp: createPayment_Inr_iff unat_add_lem [THEN iffD1])
  from rej after createPayment_Inr_iff [of sender p q v s r s'] show ?thesis
    by blast
qed

lemma configured_facts:
  "rentalMarketplaceAddress configured = 7" "rentDisputeDAOAddress configured = 8"
  "numOfPayments configured = 0" "balanceOf (leaseTokenContract configured) 2 = 1000"
  "payments configured = (\<lambda>_. zero_Payment)"
  by (simp_all add: example_defs function_defs modifier_defs ledger_defs)

lemma configured_create: "createPayment 7 2 3 1000 configured = Inr (0, created)"
  by (simp add: example_defs function_defs modifier_defs ledger_defs)

text \<open>
  The payer of the example holds 1000: a payment of 1000 is created with id 0, a payment
  of 1001 is rejected.
\<close>

theorem createPayment_funding_check_witness:
  "createPayment 7 2 3 1000 configured = Inr (0, created) \<and>
   unat (numOfPayments created) = 1 \<and>
   payments created 0 = \<lparr>payer = 2, payee = 3, amount = 1000, status = PENDING\<rparr> \<and>
   payments created 1 = zero_Payment \<and>
   createPayment 7 2 3 1001 configured = Inl PayerNotEnoughBalance \<and>
   exec configured (7, CreatePayment 2 3 1001) = configured"
  using createPayment_funding_check [of configured 2 1000 7 3 0 created]
    createPayment_funding_check [of configured 2 1001 7 3]
  by (simp add: configured_create configured_facts)

text \<open>The marketplace creates a payment of amount 0 for the payer of the example.\<close>

theorem createPayment_zero_amount_counterexample:
  "\<not> isl (createPayment 7 2 3 0 configured) \<and>
   fst (projr (createPayment 7 2 3 0 configured)) = 0 \<and>
   numOfPayments (snd (projr (createPayment 7 2 3 0 configured))) = 1 \<and>
   payments (snd (projr (createPayment 7 2 3 0 configured))) 0 =
     \<lparr>payer = 2, payee = 3, amount = 0, status = PENDING\<rparr>"
  by (simp add: example_defs function_defs modifier_defs ledger_defs)

subsection \<open>Reading a payment\<close>

lemma unwritten_exec:
  assumes "\<forall>j. numOfPayments s \<le> j \<longrightarrow> payments s j = zero_Payment"
  shows "\<forall>j. numOfPayments (exec s t) \<le> j \<longrightarrow> payments (exec s t) j = zero_Payment"
proof (cases "dispatch (fst t) (snd t) s")
  case (Inl e)
  with assms show ?thesis by (simp add: exec_def)
next
  case (Inr s')
  then have s': "exec s t = s'" by (simp add: exec_def)
  show ?thesis
  proof (cases "snd t")
    case (CreatePayment p q v)
    with Inr obtain r where "createPayment (fst t) p q v s = Inr (r, s')"
      by (auto simp: bindE_Inr_iff)
    from createPayment_Inr(3,5) [OF this] assms show ?thesis
      unfolding s' by (auto simp: word_le_nat_alt unat_add_lem [THEN iffD1])
  next
    case (Pay i)
    with Inr have "pay (fst t) i s = Inr s'" by simp
    from pay_Inr(2,4) [OF this] assms show ?thesis
      unfolding s' by auto
  next
    case (Release i)
    with Inr have "release (fst t) i s = Inr s'" by simp
    from release_Inr(2,5) [OF this] assms show ?thesis
      unfolding s' by auto
  next
    case (Refund i)
    with Inr have "refund (fst t) i s = Inr s'" by simp
    from refund_Inr(2,4) [OF this] assms show ?thesis
      unfolding s' by auto
  next
    case WithdrawToken
    with Inr have "withdrawToken (fst t) s = Inr s'" by simp
    from withdrawToken_Inr(2) [OF this] assms show ?thesis
      unfolding s' by auto
  qed (use Inr assms in \<open>auto simp: s' dest: setters_Inr\<close>)
qed

lemma unwritten_run:
  "\<forall>j. numOfPayments s \<le> j \<longrightarrow> payments s j = zero_Payment \<Longrightarrow>
   \<forall>j. numOfPayments (run s ts) \<le> j \<longrightarrow> payments (run s ts) j = zero_Payment"
proof (induction ts arbitrary: s)
  case Nil
  then show ?case by simp
next
  case (Cons t ts)
  from Cons.IH [OF unwritten_exec [OF Cons.prems]] show ?case by simp
qed

text \<open>
  C7, as amended. \<open>getPayment\<close> never fails and reads only: for every id it returns the
  record stored in the mapping at that id. In every state reached from the constructor by
  transactions, for an id greater than or equal to the payment count this is not an
  error but the zero-valued record of an unwritten slot (payer and payee the null
  identity, amount 0, status \<open>PENDING\<close>); for an id below the count it is the stored
  record.
\<close>

theorem getPayment_returns_slot:
  "getPayment i s = Inr (payments s i) \<and>
   (numOfPayments (run (constructor self ledger deployer pf cf) ts) \<le> i \<longrightarrow>
      getPayment i (run (constructor self ledger deployer pf cf) ts) = Inr zero_Payment)"
proof -
  have "\<forall>j. numOfPayments (constructor self ledger deployer pf cf) \<le> j \<longrightarrow>
            payments (constructor self ledger deployer pf cf) j = zero_Payment"
    by (simp add: constructor_def)
  from unwritten_run [OF this, of ts] show ?thesis
    by (simp add: getPayment_def)
qed

lemma created_run:
  "run (constructor 100 ledger0 1 5 50)
     [(1, SetRentalMarketplaceAddress 7), (1, SetRentDisputeDAOAddress 8),
      (7, CreatePayment 2 3 1000)] = created"
  by (simp add: created_def configured_def deployed_def)

text \<open>With one payment created, the ids 1 and 5 read as the zero-valued record.\<close>

theorem getPayment_returns_slot_witness:
  "numOfPayments created = 1 \<and>
   getPayment 0 created = Inr \<lparr>payer = 2, payee = 3, amount = 1000, status = PENDING\<rparr> \<and>
   getPayment 1 created = Inr zero_Payment \<and>
   getPayment 5 created = Inr zero_Payment"
proof -
  note slot = getPayment_returns_slot [of _ created 100 ledger0 1 5 50
      "[(1, SetRentalMarketplaceAddress 7), (1, SetRentDisputeDAOAddress 8),
        (7, CreatePayment 2 3 1000)]", unfolded created_run]
  have n: "numOfPayments created = 1"
    by (simp add: example_counts)
  have le: "numOfPayments created \<le> 1" "numOfPayments created \<le> 5"
    by (simp_all add: n)
  have "getPayment 0 created = Inr (payments created 0)"
    using slot [of 0] by blast
  moreover have "getPayment 1 created = Inr zero_Payment"
    using slot [of 1] le(1) by blast
  moreover have "getPayment 5 created = Inr zero_Payment"
    using slot [of 5] le(2) by blast
  ultimately show ?thesis
    using n by (simp add: example_payments)
qed

text \<open>Before any payment exists, reading id 5 succeeds.\<close>

theorem getPayment_out_of_range_counterexample:
  "numOfPayments configured = 0 \<and>
   getPayment 5 configured = Inr \<lparr>payer = 0, payee = 0, amount = 0, status = PENDING\<rparr>"
  by (simp add: example_defs function_defs modifier_defs ledger_defs getPayment_def)

subsection \<open>The order of ledger calls and status writes\<close>

text \<open>
  C6, as amended. In each of \<open>pay\<close>, \<open>release\<close> and \<open>refund\<close> the calls into the ledger
  come first and the status is written only after they have returned; the event follows.
  The effects of a successful call are, in this order: the ledger call (for \<open>pay\<close> the
  approval and then the transfer), the write of the new status, the event. The state
  in which the last ledger call returns still holds the record with its status of
  before the call (\<open>PENDING\<close> for \<open>pay\<close>, \<open>PAID\<close> for \<open>release\<close> and \<open>refund\<close>), and the
  final state is this state with the status written and the event emitted. The status
  write is therefore not first.
\<close>

theorem ledger_calls_precede_status_write:
  "(pay sender i s = Inr s' \<longrightarrow>
      effects_of s s' =
        [Call (ApproveLeaseToken (payer (payments s i)) (this s) (amount (payments s i))),
         Call (TransferLeaseTokenFrom (this s) (payer (payments s i)) (this s)
                (amount (payments s i))),
         Store (Write_status i PAID),
         Emit (paymentPaid (payer (payments s i)) (payee (payments s i))
                (amount (payments s i)))] \<and>
      \<not> status_write_first (effects_of s s') \<and>
      (\<exists>s1 s2.
         external (ApproveLeaseToken (payer (payments s i)) (this s)
                    (amount (payments s i))) s = Inr s1 \<and>
         external (TransferLeaseTokenFrom (this s) (payer (payments s i)) (this s)
                    (amount (payments s i))) s1 = Inr s2 \<and>
         status (payments s2 i) = PENDING \<and>
         s' = emit (paymentPaid (payer (payments s i)) (payee (payments s i))
                     (amount (payments s i)))
                (store (Write_status i PAID) s2))) \<and>
   (release sender i s = Inr s' \<longrightarrow>
      effects_of s s' =
        [Call (TransferLeaseToken (this s) (payee (payments s i))
                (amount (payments s i) - commissionFee s)),
         Store (Write_status i RELEASED),
         Emit (paymentReleased (payer (payments s i)) (payee (payments s i))
                (amount (payments s i)))] \<and>
      \<not> status_write_first (effects_of s s') \<and>
      (\<exists>s1.
         external (TransferLeaseToken (this s) (payee (payments s i))
                    (amount (payments s i) - commissionFee s)) s = Inr s1 \<and>
         status (payments s1 i) = PAID \<and>
         s' = emit (paymentReleased (payer (payments s i)) (payee (payments s i))
                     (amount (payments s i)))
                (store (Write_status i RELEASED) s1))) \<and>
   (refund sender i s = Inr s' \<longrightarrow>
      effects_of s s' =
        [Call (TransferLeaseToken (this s) (payer (payments s i)) (amount (payments s i))),
         Store (Write_status i REFUNDED),
         Emit (paymentRefunded (payer (payments s i)) (payee (payments s i))
                (amount (payments s i)))] \<and>
      \<not> status_write_first (effects_of s s') \<and>
      (\<exists>s1.
         external (TransferLeaseToken (this s) (payer (payments s i))
                    (amount (payments s i))) s = Inr s1 \<and>
         status (payments s1 i) = PAID \<and>
         s' = emit (paymentRefunded (payer (payments s i)) (payee (payments s i))
                     (amount (payments s i)))
                (store (Write_status i REFUNDED) s1)))"
proof (intro conjI impI)
  assume a: "pay sender i s = Inr s'"
  from pay_Inr(4) [OF a]
  show "effects_of s s' =
        [Call (ApproveLeaseToken (payer (payments s i)) (this s) (amount (payments s i))),
         Call (TransferLeaseTokenFrom (this s) (payer (payments s i)) (this s)
                (amount (payments s i))),
         Store (Write_status i PAID),
         Emit (paymentPaid (payer (payments s i)) (payee (payments s i))
                (amount (payments s i)))]"
    by (auto simp: effects_of_def)
  then show "\<not> status_write_first (effects_of s s')"
    by simp
  from a pay_Inr(3) [OF a]
  show "\<exists>s1 s2.
         external (ApproveLeaseToken (payer (payments s i)) (this s)
                    (amount (payments s i))) s = Inr s1 \<and>
         external (TransferLeaseTokenFrom (this s) (payer (payments s i)) (this s)
                    (amount (payments s i))) s1 = Inr s2 \<and>
         status (payments s2 i) = PENDING \<and>
         s' = emit (paymentPaid (payer (payments s i)) (payee (payments s i))
                     (amount (payments s i)))
                (store (Write_status i PAID) s2)"
    by (auto simp: pay_def modifier_defs bindE_Inr_iff external_Inr_iff store_def emit_def
        split: if_splits)
next
  assume a: "release sender i s = Inr s'"
  from release_Inr(5) [OF a]
  show "effects_of s s' =
        [Call (TransferLeaseToken (this s) (payee (payments s i))
                (amount (payments s i) - commissionFee s)),
         Store (Write_status i RELEASED),
         Emit (paymentReleased (payer (payments s i)) (payee (payments s i))
                (amount (payments s i)))]"
    by (auto simp: effects_of_def)
  then show "\<not> status_write_first (effects_of s s')"
    by simp
  from a release_Inr(3) [OF a]
  show "\<exists>s1.
         external (TransferLeaseToken (this s) (payee (payments s i))
                    (amount (payments s i) - commissionFee s)) s = Inr s1 \<and>
         status (payments s1 i) = PAID \<and>
         s' = emit (paymentReleased (payer (payments s i)) (payee (payments s i))
                     (amount (payments s i)))
                (store (Write_status i RELEASED) s1)"
    by (auto simp: release_def modifier_defs bindE_Inr_iff external_Inr_iff store_def emit_def
        checked_sub_def split: if_splits)
next
  assume a: "refund sender i s = Inr s'"
  from refund_Inr(4) [OF a]
  show "effects_of s s' =
        [Call (TransferLeaseToken (this s) (payer (payments s i)) (amount (payments s i))),
         Store (Write_status i REFUNDED),
         Emit (paymentRefunded (payer (payments s i)) (payee (payments s i))
                (amount (payments s i)))]"
    by (auto simp: effects_of_def)
  then show "\<not> status_write_first (effects_of s s')"
    by simp
  from a refund_Inr(3) [OF a]
  show "\<exists>s1.
         external (TransferLeaseToken (this s) (payer (payments s i))
                    (amount (payments s i))) s = Inr s1 \<and>
         status (payments s1 i) = PAID \<and>
         s' = emit (paymentRefunded (payer (payments s i)) (payee (payments s i))
                     (amount (payments s i)))
                (store (Write_status i REFUNDED) s1)"
    by (auto simp: refund_def modifier_defs bindE_Inr_iff external_Inr_iff store_def emit_def
        split: if_splits)
qed

lemma created_facts:
  "this created = 100" "commissionFee created = 50"
  by (simp_all add: example_defs function_defs modifier_defs ledger_defs)

text \<open>The effects of paying, releasing and refunding the payment of the example.\<close>

theorem ledger_calls_precede_status_write_witness:
  "pay 7 0 created = Inr paid \<and>
   effects_of created paid =
     [Call (ApproveLeaseToken 2 100 1000), Call (TransferLeaseTokenFrom 100 2 100 1000),
      Store (Write_status 0 PAID), Emit (paymentPaid 2 3 1000)] \<and>
   release 7 0 paid = Inr released \<and>
   effects_of paid released =
     [Call (TransferLeaseToken 100 3 950), Store (Write_status 0 RELEASED),
      Emit (paymentReleased 2 3 1000)] \<and>
   refund 8 0 paid = Inr refunded \<and>
   effects_of paid refunded =
     [Call (TransferLeaseToken 100 2 1000), Store (Write_status 0 REFUNDED),
      Emit (paymentRefunded 2 3 1000)]"
  using ledger_calls_precede_status_write [of 7 0 created paid]
    ledger_calls_precede_status_write [of 7 0 paid released]
    ledger_calls_precede_status_write [of 8 0 paid refunded]
  by (simp add: created_pay paid_release paid_refund example_payments paid_facts
      created_facts)

text \<open>
  Releasing the payment of the example calls the ledger before it writes the status.
\<close>

theorem status_write_first_counterexample:
  "release 7 0 paid = Inr released \<and>
   effects_of paid released =
     [Call (TransferLeaseToken 100 3 950), Store (Write_status 0 RELEASED),
      Emit (paymentReleased 2 3 1000)] \<and>
   \<not> status_write_first (effects_of paid released)"
  by (simp add: example_defs function_defs modifier_defs ledger_defs effects_of_def)

subsection \<open>Withdrawal by the owner\<close>

lemma released_facts:
  "this released = 100" "balanceOf (leaseTokenContract released) 100 = 50"
  "balanceOf (leaseTokenContract released) 1 = 0"
  by (simp_all add: example_defs function_defs modifier_defs ledger_defs)

text \<open>
  C8. After the release of the example the escrow holds the commission, 50 tokens. The
  owner's \<open>withdrawToken\<close> succeeds and transfers the 50 tokens from the escrow to the
  owner, and a stranger's call is rejected with the error of \<open>onlyOwner\<close>; but the event
  \<open>tokenWithdrawn\<close> carries 0, the escrow's balance read again after the transfer, and
  not the 50 tokens that were withdrawn.
\<close>

theorem withdrawToken_event_amount:
  "balanceOf (leaseTokenContract released) (this released) = 50 \<and>
   withdrawToken 9 released = Inl OnlyOwner \<and>
   \<not> isl (withdrawToken 1 released) \<and>
   effects_of released (projr (withdrawToken 1 released)) =
     [Call (TransferLeaseToken 100 1 50), Emit (tokenWithdrawn 1 0)] \<and>
   balanceOf (leaseTokenContract (projr (withdrawToken 1 released))) 1 = 50 \<and>
   balanceOf (leaseTokenContract (projr (withdrawToken 1 released))) 100 = 0"
  by (simp add: example_defs function_defs modifier_defs ledger_defs effects_of_def)

subsection \<open>The fees\<close>

lemma fee_exec:
  assumes "0 < protectionFee s \<and> 0 < commissionFee s"
  shows "0 < protectionFee (exec s t) \<and> 0 < commissionFee (exec s t)"
proof (cases "dispatch (fst t) (snd t) s")
  case (Inl e)
  with assms show ?thesis by (simp add: exec_def)
next
  case (Inr s')
  then have s': "exec s t = s'" by (simp add: exec_def)
  show ?thesis
  proof (cases "snd t")
    case (CreatePayment p q v)
    with Inr obtain r where "createPayment (fst t) p q v s = Inr (r, s')"
      by (auto simp: bindE_Inr_iff)
    from createPayment_Inr(5) [OF this] assms show ?thesis
      unfolding s' by simp
  next
    case (Pay i)
    with Inr have "pay (fst t) i s = Inr s'" by simp
    from pay_Inr(4) [OF this] assms show ?thesis
      unfolding s' by auto
  next
    case (Release i)
    with Inr have "release (fst t) i s = Inr s'" by simp
    from release_Inr(5) [OF this] assms show ?thesis
      unfolding s' by auto
  next
    case (Refund i)
    with Inr have "refund (fst t) i s = Inr s'" by simp
    from refund_Inr(4) [OF this] assms show ?thesis
      unfolding s' by auto
  next
    case WithdrawToken
    with Inr have "withdrawToken (fst t) s = Inr s'" by simp
    from withdrawToken_Inr(2) [OF this] assms show ?thesis
      unfolding s' by auto
  qed (use Inr assms in
      \<open>auto simp: s' function_defs modifier_defs split: if_splits\<close>)
qed

lemma fee_run:
  "0 < protectionFee s \<and> 0 < commissionFee s \<Longrightarrow>
   0 < protectionFee (run s ts) \<and> 0 < commissionFee (run s ts)"
proof (induction ts arbitrary: s)
  case Nil
  then show ?case by simp
next
  case (Cons t ts)
  from Cons.IH [OF fee_exec [OF Cons.prems]] show ?case by simp
qed

text \<open>
  C9. The constructor stores the fees it is given without a check, so a deployment with
  fee 0 is a state of the engine in which the fee is 0, and it stays 0 as long as the
  owner does not set it. The setters do reject the value 0, for the owner with the errors
  of \<open>invalidProtectionFee\<close> and \<open>invalidCommissionFee\<close> (class \<open>InvalidParameter\<close>),
  and the rejected transaction leaves the state as it was. Only when the constructor is
  given positive fees are both fees positive in every state reached by transactions.
\<close>

theorem fees_positive_unless_constructed_zero:
  "protectionFee (constructor self ledger deployer 0 cf) = 0 \<and>
   commissionFee (constructor self ledger deployer pf 0) = 0 \<and>
   setProtectionFee (owner s) 0 s = Inl ProtectionFeeNotPositive \<and>
   setCommissionFee (owner s) 0 s = Inl CommissionFeeNotPositive \<and>
   classify ProtectionFeeNotPositive = InvalidParameter \<and>
   classify CommissionFeeNotPositive = InvalidParameter \<and>
   exec s (sender, SetProtectionFee 0) = s \<and>
   exec s (sender, SetCommissionFee 0) = s \<and>
   (0 < pf \<and> 0 < cf \<longrightarrow>
      0 < protectionFee (run (constructor self ledger deployer pf cf) ts) \<and>
      0 < commissionFee (run (constructor self ledger deployer pf cf) ts))"
proof -
  have "0 < pf \<and> 0 < cf \<longrightarrow>
      0 < protectionFee (run (constructor self ledger deployer pf cf) ts) \<and>
      0 < commissionFee (run (constructor self ledger deployer pf cf) ts)"
    using fee_run [of "constructor self ledger deployer pf cf" ts]
    by (simp add: constructor_def)
  then show ?thesis
    by (simp add: constructor_def setProtectionFee_def setCommissionFee_def modifier_defs
        exec_def)
qed

text \<open>
  A deployment with both fees 0; the example, deployed with the fees 5 and 50, after the
  owner set the commission fee to 70.
\<close>

theorem fees_positive_unless_constructed_zero_witness:
  "protectionFee (constructor 100 ledger0 1 0 0) = 0 \<and>
   commissionFee (constructor 100 ledger0 1 0 0) = 0 \<and>
   commissionFee (run (constructor 100 ledger0 1 0 0) [(7, Pay 0), (1, WithdrawToken)]) = 0 \<and>
   setCommissionFee 1 0 (constructor 100 ledger0 1 0 0) = Inl CommissionFeeNotPositive \<and>
   0 < protectionFee repriced \<and> 0 < commissionFee repriced"
proof -
  have r: "run (constructor 100 ledger0 1 5 50)
     [(1, SetRentalMarketplaceAddress 7), (1, SetRentDisputeDAOAddress 8),
      (7, CreatePayment 2 3 1000), (7, Pay 0), (1, SetCommissionFee 70)] = repriced"
    by (simp add: repriced_def paid_def created_def configured_def deployed_def)
  have z: "commissionFee (run (constructor 100 ledger0 1 0 0) [(7, Pay 0), (1, WithdrawToken)]) = 0"
    by (simp add: example_defs function_defs modifier_defs ledger_defs)
  have o: "owner (constructor 100 ledger0 1 0 0) = 1"
    by (simp add: constructor_def)
  from fees_positive_unless_constructed_zero [of 100 ledger0 1 0 0
      "constructor 100 ledger0 1 0 0"]
    fees_positive_unless_constructed_zero [of 100 ledger0 1 50 5 _ _
      "[(1, SetRentalMarketplaceAddress 7), (1, SetRentDisputeDAOAddress 8),
        (7, CreatePayment 2 3 1000), (7, Pay 0), (1, SetCommissionFee 70)]"]
  show ?thesis
    unfolding r o using z by simp
qed

subsection \<open>Release of a payment smaller than the commission fee\<close>

lemma small_paid_facts:
  "numOfPayments small_paid = 1"
  "payments small_paid 0 = \<lparr>payer = 2, payee = 3, amount = 10, status = PAID\<rparr>"
  "commissionFee small_paid = 50" "protectionFee small_paid = 5"
  "rentalMarketplaceAddress small_paid = 7"
  "balanceOf (leaseTokenContract small_paid) (this small_paid) = 10"
  by (simp_all add: small_paid_def example_defs function_defs modifier_defs ledger_defs)

text \<open>
  C10. For a \<open>PAID\<close> payment whose amount is below the current commission fee, the
  checked subtraction \<open>amount - commissionFee\<close> of \<open>release\<close> fails: called by the
  marketplace, \<open>release\<close> aborts with the arithmetic panic, which arises before the
  call into the ledger; called by anyone it aborts, and the transaction leaves the whole
  state as it was, so the record stays \<open>PAID\<close> and the escrow's holding balance is
  unchanged. The subtraction has a result, the difference of the two numbers, exactly
  when the fee is at most the amount. Nothing prevents a state in which it is not: with
  the fees 5 and 50 of the example, the marketplace creates and pays a payment of 10.
\<close>

theorem release_below_commission_panics:
  assumes "i < numOfPayments s" and "status (payments s i) = PAID"
  shows
    "(amount (payments s i) < commissionFee s \<longrightarrow>
        checked_sub (amount (payments s i)) (commissionFee s) = Inl ArithmeticPanic \<and>
        release (rentalMarketplaceAddress s) i s = Inl ArithmeticPanic \<and>
        (\<exists>e. release sender i s = Inl e) \<and>
        exec s (sender, Release i) = s \<and>
        status (payments (exec s (sender, Release i)) i) = PAID \<and>
        balanceOf (leaseTokenContract (exec s (sender, Release i))) (this s) =
          balanceOf (leaseTokenContract s) (this s)) \<and>
     (commissionFee s \<le> amount (payments s i) \<longrightarrow>
        checked_sub (amount (payments s i)) (commissionFee s) =
          Inr (amount (payments s i) - commissionFee s) \<and>
        unat (amount (payments s i) - commissionFee s) =
          unat (amount (payments s i)) - unat (commissionFee s)) \<and>
     small_paid =
       run (constructor 100 ledger0 1 5 50)
         [(1, SetRentalMarketplaceAddress 7), (1, SetRentDisputeDAOAddress 8),
          (7, CreatePayment 2 3 10), (7, Pay 0)] \<and>
     status (payments small_paid 0) = PAID \<and>
     amount (payments small_paid 0) < commissionFee small_paid"
proof -
  have below: "amount (payments s i) < commissionFee s \<longrightarrow>
        checked_sub (amount (payments s i)) (commissionFee s) = Inl ArithmeticPanic \<and>
        release (rentalMarketplaceAddress s) i s = Inl ArithmeticPanic \<and>
        (\<exists>e. release sender i s = Inl e) \<and>
        exec s (sender, Release i) = s \<and>
        status (payments (exec s (sender, Release i)) i) = PAID \<and>
        balanceOf (leaseTokenContract (exec s (sender, Release i))) (this s) =
          balanceOf (leaseTokenContract s) (this s)"
  proof
    assume lt: "amount (payments s i) < commissionFee s"
    then have sub: "checked_sub (amount (payments s i)) (commissionFee s) = Inl ArithmeticPanic"
      by (simp add: checked_sub_def)
    have m: "release (rentalMarketplaceAddress s) i s = Inl ArithmeticPanic"
      using assms by (simp add: release_def modifier_defs sub)
    have any: "\<exists>e. release sender i s = Inl e"
      using assms by (simp add: release_def modifier_defs sub)
    then have ex: "exec s (sender, Release i) = s"
      by (auto simp: exec_def)
    from sub m any ex assms(2)
    show "checked_sub (amount (payments s i)) (commissionFee s) = Inl ArithmeticPanic \<and>
        release (rentalMarketplaceAddress s) i s = Inl ArithmeticPanic \<and>
        (\<exists>e. release sender i s = Inl e) \<and>
        exec s (sender, Release i) = s \<and>
        status (payments (exec s (sender, Release i)) i) = PAID \<and>
        balanceOf (leaseTokenContract (exec s (sender, Release i))) (this s) =
          balanceOf (leaseTokenContract s) (this s)"
      by simp
  qed
  have above: "commissionFee s \<le> amount (payments s i) \<longrightarrow>
        checked_sub (amount (payments s i)) (commissionFee s) =
          Inr (amount (payments s i) - commissionFee s) \<and>
        unat (amount (payments s i) - commissionFee s) =
          unat (amount (payments s i)) - unat (commissionFee s)"
    by (simp add: checked_sub_def unat_sub)
  have small: "small_paid =
       run (constructor 100 ledger0 1 5 50)
         [(1, SetRentalMarketplaceAddress 7), (1, SetRentDisputeDAOAddress 8),
          (7, CreatePayment 2 3 10), (7, Pay 0)]"
    by (simp add: small_paid_def configured_def deployed_def)
  have low: "status (payments small_paid 0) = PAID \<and>
      amount (payments small_paid 0) < commissionFee small_paid"
    by (simp add: small_paid_facts)
  from below above small low show ?thesis
    by blast
qed

text \<open>The payment of 10 under the commission fee 50.\<close>

theorem release_below_commission_panics_witness:
  "(0 :: uint256) < numOfPayments small_paid \<and>
   status (payments small_paid 0) = PAID \<and>
   amount (payments small_paid 0) = 10 \<and> commissionFee small_paid = 50 \<and>
   release 7 0 small_paid = Inl ArithmeticPanic \<and>
   exec small_paid (7, Release 0) = small_paid \<and>
   checked_sub (amount (payments paid 0)) (commissionFee paid) = Inr 950"
  using release_below_commission_panics [of 0 small_paid 7]
    release_below_commission_panics [of 0 paid 7]
  by (simp add: small_paid_facts example_counts example_payments paid_facts)

end
